theory Spec2Isabelle
  imports Complex_Main "HOL-Library.Code_Target_Nat"
begin

section \<open>ECMAScript numbers\<close>

text \<open>
  Every TypeScript \<^verbatim>\<open>number\<close> of the sources is an IEEE 754 double: \<open>NaN\<close>,
  \<open>+Infinity\<close> (\<open>PInf\<close>), \<open>-Infinity\<close> (\<open>NInf\<close>), the negative zero (\<open>NZero\<close>), or
  a finite value \<open>Fin q\<close>, given by the rational it denotes (\<open>Fin 0\<close> is the positive
  zero). An arithmetic operator of the language computes the exact result and rounds it to
  the nearest double. The two steps are kept apart: \<open>jsadd\<close>, \<open>jssub\<close>, \<open>jsmul\<close> and
  \<open>jsdiv\<close> give the exact result, with the rules for the special values, and \<open>round64\<close>
  below rounds it; \<open>fadd\<close>, \<open>fsub\<close> and \<open>fdiv\<close> are the operators \<^verbatim>\<open>+\<close>, \<^verbatim>\<open>-\<close> and
  \<^verbatim>\<open>/\<close> of the language.
\<close>

datatype jsnum = Fin rat | NZero | PInf | NInf | NaN

fun isNaN :: "jsnum \<Rightarrow> bool" where
  "isNaN NaN = True"
| "isNaN _ = False"

fun isInf :: "jsnum \<Rightarrow> bool" where
  "isInf PInf = True"
| "isInf NInf = True"
| "isInf _ = False"

text \<open>\<^verbatim>\<open>Number.isFinite\<close>: neither NaN nor an infinity.\<close>

fun isFinite :: "jsnum \<Rightarrow> bool" where
  "isFinite (Fin _) = True"
| "isFinite NZero = True"
| "isFinite _ = False"

text \<open>\<^verbatim>\<open>x === 0\<close>: both zeros are strictly equal to \<^verbatim>\<open>0\<close>.\<close>

fun isZero :: "jsnum \<Rightarrow> bool" where
  "isZero (Fin a) = (a = 0)"
| "isZero NZero = True"
| "isZero _ = False"

text \<open>The sign bit (of a value that is not NaN).\<close>

fun isNeg :: "jsnum \<Rightarrow> bool" where
  "isNeg (Fin a) = (a < 0)"
| "isNeg NZero = True"
| "isNeg NInf = True"
| "isNeg _ = False"

text \<open>The mathematical value of a finite number.\<close>

fun val :: "jsnum \<Rightarrow> rat" where
  "val (Fin a) = a"
| "val _ = 0"

definition signedZero :: "bool \<Rightarrow> jsnum" where
  "signedZero neg = (if neg then NZero else Fin 0)"

definition signedInf :: "bool \<Rightarrow> jsnum" where
  "signedInf neg = (if neg then NInf else PInf)"

text \<open>\<^verbatim>\<open>ToBoolean\<close> of a number: \<^verbatim>\<open>+0\<close>, \<^verbatim>\<open>-0\<close> and \<^verbatim>\<open>NaN\<close> are falsy.\<close>

fun truthy :: "jsnum \<Rightarrow> bool" where
  "truthy (Fin a) = (a \<noteq> 0)"
| "truthy NZero = False"
| "truthy NaN = False"
| "truthy _ = True"

text \<open>\<^verbatim>\<open>x < y\<close>: false as soon as one side is NaN.\<close>

fun jslt :: "jsnum \<Rightarrow> jsnum \<Rightarrow> bool" where
  "jslt NaN _ = False"
| "jslt _ NaN = False"
| "jslt PInf _ = False"
| "jslt _ NInf = False"
| "jslt NInf _ = True"
| "jslt _ PInf = True"
| "jslt x y = (val x < val y)"

text \<open>\<^verbatim>\<open>x > y\<close>.\<close>

definition jsgt :: "jsnum \<Rightarrow> jsnum \<Rightarrow> bool" where
  "jsgt x y = jslt y x"

text \<open>Unary minus.\<close>

fun jsneg :: "jsnum \<Rightarrow> jsnum" where
  "jsneg (Fin a) = (if a = 0 then NZero else Fin (- a))"
| "jsneg NZero = Fin 0"
| "jsneg PInf = NInf"
| "jsneg NInf = PInf"
| "jsneg NaN = NaN"

text \<open>The exact sum: the sum of two zeros is negative only when both are.\<close>

fun jsadd :: "jsnum \<Rightarrow> jsnum \<Rightarrow> jsnum" where
  "jsadd NaN _ = NaN"
| "jsadd _ NaN = NaN"
| "jsadd PInf NInf = NaN"
| "jsadd NInf PInf = NaN"
| "jsadd PInf _ = PInf"
| "jsadd _ PInf = PInf"
| "jsadd NInf _ = NInf"
| "jsadd _ NInf = NInf"
| "jsadd NZero y = y"
| "jsadd x NZero = x"
| "jsadd (Fin a) (Fin b) = Fin (a + b)"

text \<open>The exact difference.\<close>

definition jssub :: "jsnum \<Rightarrow> jsnum \<Rightarrow> jsnum" where
  "jssub x y = jsadd x (jsneg y)"

text \<open>
  The exact quotient; a division never throws. \<^verbatim>\<open>0 / 0\<close> and \<^verbatim>\<open>Infinity / Infinity\<close>
  are NaN; a nonzero number over a zero is an infinity; the sign of the result is the
  exclusive or of the signs.
\<close>

definition jsdiv :: "jsnum \<Rightarrow> jsnum \<Rightarrow> jsnum" where
  "jsdiv x y =
     (if isNaN x \<or> isNaN y then NaN
      else if isInf x then (if isInf y then NaN else signedInf (isNeg x \<noteq> isNeg y))
      else if isInf y then signedZero (isNeg x \<noteq> isNeg y)
      else if isZero y then (if isZero x then NaN else signedInf (isNeg x \<noteq> isNeg y))
      else if isZero x then signedZero (isNeg x \<noteq> isNeg y)
      else Fin (val x / val y))"

text \<open>The exact product: an infinity times a zero is NaN.\<close>

definition jsmul :: "jsnum \<Rightarrow> jsnum \<Rightarrow> jsnum" where
  "jsmul x y =
     (if isNaN x \<or> isNaN y then NaN
      else if isInf x \<or> isInf y then
        (if isZero x \<or> isZero y then NaN else signedInf (isNeg x \<noteq> isNeg y))
      else if isZero x \<or> isZero y then signedZero (isNeg x \<noteq> isNeg y)
      else Fin (val x * val y))"

subsection \<open>Rounding to the nearest double\<close>

text \<open>The number of binary digits of a natural number.\<close>

fun bitLength :: "nat \<Rightarrow> int" where
  "bitLength 0 = 0"
| "bitLength (Suc n) = 1 + bitLength (Suc n div 2)"

definition pow2 :: "int \<Rightarrow> rat" where
  "pow2 e = 2 powi e"

text \<open>The binary exponent of a positive rational \<open>a\<close>: the \<open>e\<close> with \<open>2^e \<le> a < 2^(e+1)\<close>.\<close>

definition ilog2 :: "rat \<Rightarrow> int" where
  "ilog2 a =
     (if 1 \<le> a then bitLength (nat \<lfloor>a\<rfloor>) - 1
      else (let k = bitLength (nat \<lfloor>1 / a\<rfloor>) - 1
            in if a = pow2 (- k) then - k else - k - 1))"

text \<open>The nearest integer, the even one of two that are equally near.\<close>

definition roundHalfEven :: "rat \<Rightarrow> int" where
  "roundHalfEven y =
     (let n = \<lfloor>y\<rfloor>; f = y - of_int n
      in if f < 1 / 2 then n
         else if 1 / 2 < f then n + 1
         else if even n then n else n + 1)"

text \<open>
  IEEE 754 binary64, round to nearest, ties to even: 53 significant binary digits, the
  least exponent -1022 (below it the spacing stays \<open>2^-1074\<close>: the subnormal numbers and
  the underflow to a zero of the same sign), and overflow to an infinity when the rounded
  magnitude reaches \<open>2^1024\<close>.
\<close>

definition round64 :: "rat \<Rightarrow> jsnum" where
  "round64 x =
     (if x = 0 then Fin 0
      else (let a = \<bar>x\<bar>;
                e = max (ilog2 a) (- 1022);
                q = pow2 (e - 52);
                n = roundHalfEven (a / q);
                m = of_int n * q
            in if pow2 1024 \<le> m then signedInf (x < 0)
               else if n = 0 then signedZero (x < 0)
               else Fin (if x < 0 then - m else m)))"

text \<open>The rounding of an exact result; a special value is left as it is.\<close>

fun rnd :: "jsnum \<Rightarrow> jsnum" where
  "rnd (Fin s) = round64 s"
| "rnd x = x"

text \<open>\<^verbatim>\<open>x + y\<close>, \<^verbatim>\<open>x - y\<close> and \<^verbatim>\<open>x / y\<close>.\<close>

definition fadd :: "jsnum \<Rightarrow> jsnum \<Rightarrow> jsnum" where
  "fadd x y = rnd (jsadd x y)"

definition fsub :: "jsnum \<Rightarrow> jsnum \<Rightarrow> jsnum" where
  "fsub x y = rnd (jssub x y)"

definition fdiv :: "jsnum \<Rightarrow> jsnum \<Rightarrow> jsnum" where
  "fdiv x y = rnd (jsdiv x y)"

text \<open>The double that a decimal literal of the source denotes, such as \<^verbatim>\<open>0.2\<close>.\<close>

definition double :: "rat \<Rightarrow> jsnum" where
  "double q = round64 q"

text \<open>\<^verbatim>\<open>Math.abs\<close>.\<close>

fun jsabs :: "jsnum \<Rightarrow> jsnum" where
  "jsabs (Fin a) = Fin \<bar>a\<bar>"
| "jsabs NZero = Fin 0"
| "jsabs PInf = PInf"
| "jsabs NInf = PInf"
| "jsabs NaN = NaN"

text \<open>\<^verbatim>\<open>Math.max\<close> and \<^verbatim>\<open>Math.min\<close> of two arguments: NaN if one of them is, and
  \<^verbatim>\<open>+0\<close> counts as larger than \<^verbatim>\<open>-0\<close>.\<close>

definition jsmax :: "jsnum \<Rightarrow> jsnum \<Rightarrow> jsnum" where
  "jsmax x y =
     (if isNaN x \<or> isNaN y then NaN
      else if jslt x y then y
      else if jslt y x then x
      else if x = NZero then y else x)"

definition jsmin :: "jsnum \<Rightarrow> jsnum \<Rightarrow> jsnum" where
  "jsmin x y =
     (if isNaN x \<or> isNaN y then NaN
      else if jslt x y then x
      else if jslt y x then y
      else if x = NZero then x else y)"

text \<open>\<^verbatim>\<open>Math.ceil\<close>: a value strictly between \<^verbatim>\<open>-1\<close> and \<^verbatim>\<open>0\<close> gives \<^verbatim>\<open>-0\<close>.\<close>

fun jsceil :: "jsnum \<Rightarrow> jsnum" where
  "jsceil (Fin a) = (if - 1 < a \<and> a < 0 then NZero else Fin (of_int \<lceil>a\<rceil>))"
| "jsceil x = x"

text \<open>A loop counter or an array length as a number.\<close>

definition ofNat :: "nat \<Rightarrow> jsnum" where
  "ofNat n = Fin (of_nat n)"

text \<open>\<^verbatim>\<open>Date.prototype.getTime\<close> of a valid date: its milliseconds since the epoch.\<close>

type_synonym date = int

definition getTime :: "date \<Rightarrow> jsnum" where
  "getTime d = Fin (of_int d)"

section \<open>The grant data model (src/models/Grant.ts)\<close>

text \<open>
  Only the fields that the modelled methods read or write are kept. A \<^verbatim>\<open>Date\<close> is a
  valid date, given by its time value. Field names that several interfaces share carry a
  prefix.
\<close>

datatype GrantStatus =
    draft | submitted | under_review | approved | active | suspended | completed
  | terminated | closed

datatype MilestoneStatus = ms_pending | ms_in_progress | ms_completed | ms_delayed

record Milestone =
  ms_id :: string
  ms_name :: string
  ms_dueDate :: date
  ms_status :: MilestoneStatus

datatype ExpenditureStatus = exp_pending | exp_approved | exp_rejected

record Expenditure =
  exp_id :: string
  exp_amount :: jsnum
  exp_status :: ExpenditureStatus

datatype DocumentStatus = doc_pending | doc_reviewed | doc_approved | doc_rejected

record Document =
  doc_id :: string
  doc_type :: string
  doc_status :: DocumentStatus

record ReportSubmission =
  rep_id :: string
  rep_type :: string
  rep_submissionDate :: date

text \<open>
  Modelled from the spec: the declaration of \<^verbatim>\<open>KPI\<close> (src/models/KPI.ts) is not among the
  sources; the three fields are those of the spec's data model, which are also the only
  ones the code reads.
\<close>

record KPI =
  kpi_name :: string
  targetValue :: jsnum
  currentValue :: jsnum

text \<open>
  \<^verbatim>\<open>type\<close> is declared as a union of four literals; \<open>unrecognized\<close> stands for any other
  value, which reaches the \<^verbatim>\<open>default\<close> branch of the dispatch.
\<close>

datatype RequirementType = documentation | financial | reporting | performance | unrecognized

datatype Severity = high | medium | low

text \<open>
  \<^verbatim>\<open>parameters?: Record<string, any>\<close>: the four entries the evaluators read, each one
  optional and of the shape the evaluator expects.
\<close>

record Parameters =
  requiredDocuments :: "string list option"
  maxUtilizationRate :: "jsnum option"
  reportType :: "string option"
  minAchievementRate :: "jsnum option"

record ComplianceRequirement =
  req_id :: string
  req_name :: string
  req_description :: string
  req_type :: RequirementType
  req_severity :: Severity
  applicableFrom :: "date option"
  req_dueDate :: "date option"
  parameters :: "Parameters option"

text \<open>\<^verbatim>\<open>changes: { status: { from: oldStatus, to: newStatus } }\<close>.\<close>

datatype Change = FromTo GrantStatus GrantStatus

record HistoryEntry =
  h_date :: date
  h_action :: string
  h_user :: string
  h_changes :: "(string \<times> Change) list"

record Grant =
  g_id :: string
  g_status :: GrantStatus
  totalFunding :: jsnum
  startDate :: date
  endDate :: date
  milestones :: "Milestone list"
  expenditures :: "Expenditure list"
  kpis :: "KPI list"
  documents :: "Document list"
  reports :: "ReportSubmission list"
  updatedBy :: string
  updatedAt :: date
  version :: jsnum
  history :: "HistoryEntry list"

text \<open>
  Each \<^verbatim>\<open>new Date()\<close> reads the clock. A method that reads it more than once takes the
  readings as a function: \<open>clk k\<close> is what the \<open>k\<close>-th reading returns.
\<close>

type_synonym clock = "nat \<Rightarrow> date"

subsection \<open>The mutation methods of \<^verbatim>\<open>Grant\<close>\<close>

definition addMilestone :: "date \<Rightarrow> Milestone \<Rightarrow> Grant \<Rightarrow> Grant" where
  "addMilestone now milestone g =
     g\<lparr>milestones := milestones g @ [milestone],
       updatedAt := now,
       version := fadd (version g) (Fin 1)\<rparr>"

definition addExpenditure :: "date \<Rightarrow> Expenditure \<Rightarrow> Grant \<Rightarrow> Grant" where
  "addExpenditure now expenditure g =
     g\<lparr>expenditures := expenditures g @ [expenditure],
       updatedAt := now,
       version := fadd (version g) (Fin 1)\<rparr>"

definition updateStatus :: "clock \<Rightarrow> GrantStatus \<Rightarrow> string \<Rightarrow> Grant \<Rightarrow> Grant" where
  "updateStatus clk newStatus user g =
     (let oldStatus = g_status g
      in g\<lparr>g_status := newStatus,
           updatedBy := user,
           updatedAt := clk 0,
           version := fadd (version g) (Fin 1),
           history := history g @
             [\<lparr>h_date = clk 1, h_action = ''STATUS_CHANGE'', h_user = user,
               h_changes = [(''status'', FromTo oldStatus newStatus)]\<rparr>]\<rparr>)"

section \<open>The progress metrics calculator (\<^verbatim>\<open>GrantMetrics\<close>)\<close>

datatype RiskLevel = risk_low | risk_medium | risk_high

record GrantProgressMetrics =
  grantId :: string
  pm_totalFunding :: jsnum
  fundsUtilized :: jsnum
  utilizationRate :: jsnum
  milestonesCompleted :: nat
  totalMilestones :: nat
  milestoneCompletionRate :: jsnum
  daysElapsed :: jsnum
  totalDays :: jsnum
  timelineProgress :: jsnum
  pm_status :: GrantStatus
  riskLevel :: RiskLevel
  kpiAchievement :: "string \<rightharpoonup> jsnum"
  lastUpdated :: date

text \<open>The only failure the interface names. No statement of the sources raises it.\<close>

datatype error = InvalidGrantError

definition calculateRiskLevel :: "jsnum \<Rightarrow> jsnum \<Rightarrow> jsnum \<Rightarrow> RiskLevel" where
  "calculateRiskLevel timelineProgress' utilizationRate' milestoneCompletionRate' =
     (let timelineVsMilestoneDiff = jsabs (fsub timelineProgress' milestoneCompletionRate');
          timelineVsFinancialDiff = jsabs (fsub timelineProgress' utilizationRate');
          riskScore = fdiv (fadd timelineVsMilestoneDiff timelineVsFinancialDiff) (Fin 2)
      in if jslt riskScore (double (2 / 10)) then risk_low
         else if jslt riskScore (double (4 / 10)) then risk_medium
         else risk_high)"

text \<open>The value that the body of the \<^verbatim>\<open>for\<close> loop computes for one KPI.\<close>

definition kpiEntry :: "KPI \<Rightarrow> jsnum" where
  "kpiEntry kpi =
     (if \<not> isZero (targetValue kpi) then fdiv (currentValue kpi) (targetValue kpi)
      else currentValue kpi)"

text \<open>
  \<^verbatim>\<open>achievement[name] = v\<close> on the plain object \<^verbatim>\<open>{}\<close>, whose entries are its own
  properties. The name \<^verbatim>\<open>__proto__\<close> is the accessor inherited from
  \<^verbatim>\<open>Object.prototype\<close>: its setter ignores a number, and no property is stored. Any
  other name becomes an own property, also one that shadows an inherited method.
\<close>

definition setProperty :: "(string \<rightharpoonup> jsnum) \<Rightarrow> string \<Rightarrow> jsnum \<Rightarrow> (string \<rightharpoonup> jsnum)" where
  "setProperty obj name' v = (if name' = ''__proto__'' then obj else obj(name' \<mapsto> v))"

text \<open>The loop over the list.\<close>

fun kpiLoop :: "KPI list \<Rightarrow> (string \<rightharpoonup> jsnum) \<Rightarrow> (string \<rightharpoonup> jsnum)" where
  "kpiLoop [] achievement = achievement"
| "kpiLoop (kpi # rest) achievement =
     kpiLoop rest (setProperty achievement (kpi_name kpi) (kpiEntry kpi))"

definition calculateKPIAchievement :: "KPI list \<Rightarrow> (string \<rightharpoonup> jsnum)" where
  "calculateKPIAchievement ks = kpiLoop ks Map.empty"

text \<open>\<^verbatim>\<open>expenditures.reduce((sum, exp) => sum + exp.amount, 0)\<close>.\<close>

definition sumAmounts :: "Expenditure list \<Rightarrow> jsnum" where
  "sumAmounts es = foldl (\<lambda>sum exp. fadd sum (exp_amount exp)) (Fin 0) es"

definition msPerDay :: jsnum where
  "msPerDay = Fin (1000 * 60 * 60 * 24)"

text \<open>
  The two day counts are computed on time values, which are integers: their difference and
  its quotient by the milliseconds of a day are taken exactly, before \<^verbatim>\<open>Math.ceil\<close>.
  Every other operation rounds.
\<close>

definition calculateProgress :: "date \<Rightarrow> Grant \<Rightarrow> error + GrantProgressMetrics" where
  "calculateProgress now g =
     (let totalDays' = jsceil (jsdiv (jssub (getTime (endDate g)) (getTime (startDate g))) msPerDay);
          daysElapsed' = jsceil (jsdiv (jssub (getTime now) (getTime (startDate g))) msPerDay);
          timelineProgress' = jsmin (jsmax (fdiv daysElapsed' totalDays') (Fin 0)) (Fin 1);
          totalFunding' = totalFunding g;
          fundsUtilized' = sumAmounts (expenditures g);
          utilizationRate' =
            (if jsgt totalFunding' (Fin 0) then fdiv fundsUtilized' totalFunding' else Fin 0);
          totalMilestones' = length (milestones g);
          milestonesCompleted' = length (filter (\<lambda>m. ms_status m = ms_completed) (milestones g));
          milestoneCompletionRate' =
            (if totalMilestones' > 0 then fdiv (ofNat milestonesCompleted') (ofNat totalMilestones')
             else Fin 0);
          riskLevel' = calculateRiskLevel timelineProgress' utilizationRate' milestoneCompletionRate';
          kpiAchievement' = calculateKPIAchievement (kpis g)
      in Inr \<lparr>grantId = g_id g,
              pm_totalFunding = totalFunding',
              fundsUtilized = fundsUtilized',
              utilizationRate = utilizationRate',
              milestonesCompleted = milestonesCompleted',
              totalMilestones = totalMilestones',
              milestoneCompletionRate = milestoneCompletionRate',
              daysElapsed = daysElapsed',
              totalDays = totalDays',
              timelineProgress = timelineProgress',
              pm_status = g_status g,
              riskLevel = riskLevel',
              kpiAchievement = kpiAchievement',
              lastUpdated = now\<rparr>)"

section \<open>The compliance evaluator (\<^verbatim>\<open>ComplianceMetrics\<close>)\<close>

datatype CStatus = compliant | non_compliant | pending | not_applicable

datatype OverallStatus = overall_compliant | at_risk | overall_non_compliant

text \<open>
  An evidence string is a template literal; each constructor stands for one template, with
  the interpolated values as arguments (the text a number is printed as is not modelled):
  \<^item> \<open>DocApproved doc\<close>: \<^verbatim>\<open>Document "${doc}" submitted and approved\<close>
  \<^item> \<open>DocMissing doc\<close>: \<^verbatim>\<open>Missing or unapproved document: ${doc}\<close>
  \<^item> \<open>UtilExceeds a m\<close>: \<^verbatim>\<open>Utilization rate (${a.toFixed(2)}) exceeds maximum (${m})\<close>
  \<^item> \<open>UtilWithin a\<close>: \<^verbatim>\<open>Utilization rate (${a.toFixed(2)}) within acceptable range\<close>
  \<^item> \<open>ReportMissing t\<close>: \<^verbatim>\<open>Missing required report: ${t}\<close>
  \<^item> \<open>ReportSubmitted t d\<close>: \<^verbatim>\<open>Report "${t}" submitted on ${d}\<close>
  \<^item> \<open>KPIBelow n a m\<close>: \<^verbatim>\<open>KPI "${n}" achievement (${a.toFixed(2)}) below minimum (${m})\<close>
  \<^item> \<open>KPIAchieved n a\<close>: \<^verbatim>\<open>KPI "${n}" achievement: ${a.toFixed(2)}\<close>
\<close>

datatype Evidence =
    DocApproved string
  | DocMissing string
  | UtilExceeds jsnum jsnum
  | UtilWithin jsnum
  | ReportMissing "string option"
  | ReportSubmitted string date
  | KPIBelow string jsnum jsnum
  | KPIAchieved string jsnum

record ComplianceStatus =
  requirementId :: string
  requirementName :: string
  cs_description :: string
  cs_status :: CStatus
  evidence :: "Evidence list"
  lastChecked :: date
  cs_dueDate :: "date option"
  cs_severity :: Severity

record ComplianceSummary =
  cs_grantId :: string
  totalRequirements :: nat
  compliantRequirements :: nat
  nonCompliantRequirements :: nat
  pendingRequirements :: nat
  complianceRate :: jsnum
  highPriorityIssues :: nat
  mediumPriorityIssues :: nat
  lowPriorityIssues :: nat
  overallStatus :: OverallStatus
  lastAssessment :: date
  requirements :: "ComplianceStatus list"

text \<open>\<^verbatim>\<open>requirement.parameters?.field\<close>: undefined when the bag or the entry is absent.\<close>

definition param :: "(Parameters \<Rightarrow> 'a option) \<Rightarrow> ComplianceRequirement \<Rightarrow> 'a option" where
  "param field r = (case parameters r of None \<Rightarrow> None | Some p \<Rightarrow> field p)"

text \<open>\<^verbatim>\<open>value || dflt\<close> on an optional number: every falsy value gives the default.\<close>

definition numOr :: "jsnum option \<Rightarrow> jsnum \<Rightarrow> jsnum" where
  "numOr v dflt = (case v of None \<Rightarrow> dflt | Some x \<Rightarrow> if truthy x then x else dflt)"

text \<open>\<^verbatim>\<open>value || []\<close> on an optional array: an array, even an empty one, is truthy.\<close>

definition listOr :: "'a list option \<Rightarrow> 'a list" where
  "listOr v = (case v of None \<Rightarrow> [] | Some xs \<Rightarrow> xs)"

fun documentationLoop ::
  "string list \<Rightarrow> Document list \<Rightarrow> Evidence list \<Rightarrow> CStatus \<times> Evidence list" where
  "documentationLoop [] submittedDocs ev = (compliant, ev)"
| "documentationLoop (doc # rest) submittedDocs ev =
     (case find (\<lambda>d. doc_type d = doc \<and> doc_status d = doc_approved) submittedDocs of
        Some found \<Rightarrow> documentationLoop rest submittedDocs (ev @ [DocApproved doc])
      | None \<Rightarrow> (non_compliant, ev @ [DocMissing doc]))"

definition checkDocumentation ::
  "ComplianceRequirement \<Rightarrow> Grant \<Rightarrow> Evidence list \<Rightarrow> CStatus \<times> Evidence list" where
  "checkDocumentation r g ev =
     (let requiredDocs = listOr (param requiredDocuments r);
          submittedDocs = documents g
      in documentationLoop requiredDocs submittedDocs ev)"

definition checkFinancial ::
  "ComplianceRequirement \<Rightarrow> Grant \<Rightarrow> Evidence list \<Rightarrow> CStatus \<times> Evidence list" where
  "checkFinancial r g ev =
     (let maxUtilization = numOr (param maxUtilizationRate r) (Fin 1);
          actualUtilization = fdiv (sumAmounts (expenditures g)) (totalFunding g)
      in if jsgt actualUtilization maxUtilization
         then (non_compliant, ev @ [UtilExceeds actualUtilization maxUtilization])
         else (compliant, ev @ [UtilWithin actualUtilization]))"

definition checkReporting ::
  "date \<Rightarrow> ComplianceRequirement \<Rightarrow> Grant \<Rightarrow> Evidence list \<Rightarrow> CStatus \<times> Evidence list" where
  "checkReporting now r g ev =
     (case req_dueDate r of
        None \<Rightarrow> (compliant, ev)
      | Some dueDate \<Rightarrow>
          if dueDate < now then
            (case find (\<lambda>rp. Some (rep_type rp) = param reportType r
                            \<and> rep_submissionDate rp \<le> dueDate) (reports g) of
               None \<Rightarrow> (non_compliant, ev @ [ReportMissing (param reportType r)])
             | Some requiredReport \<Rightarrow>
                 (compliant,
                  ev @ [ReportSubmitted (rep_type requiredReport)
                          (rep_submissionDate requiredReport)]))
          else (compliant, ev))"

fun performanceLoop :: "KPI list \<Rightarrow> jsnum \<Rightarrow> Evidence list \<Rightarrow> CStatus \<times> Evidence list" where
  "performanceLoop [] minAchievement ev = (compliant, ev)"
| "performanceLoop (kpi # rest) minAchievement ev =
     (if \<not> isZero (targetValue kpi) then
        (let achievement = fdiv (currentValue kpi) (targetValue kpi)
         in if jslt achievement minAchievement
            then (non_compliant, ev @ [KPIBelow (kpi_name kpi) achievement minAchievement])
            else performanceLoop rest minAchievement
                   (ev @ [KPIAchieved (kpi_name kpi) achievement]))
      else performanceLoop rest minAchievement ev)"

definition checkPerformance ::
  "ComplianceRequirement \<Rightarrow> Grant \<Rightarrow> Evidence list \<Rightarrow> CStatus \<times> Evidence list" where
  "checkPerformance r g ev =
     (let minAchievement = numOr (param minAchievementRate r) (double (8 / 10))
      in performanceLoop (kpis g) minAchievement ev)"

text \<open>\<^verbatim>\<open>requirement.applicableFrom && new Date(requirement.applicableFrom) > now\<close>.\<close>

definition notYetApplicable :: "ComplianceRequirement \<Rightarrow> date \<Rightarrow> bool" where
  "notYetApplicable r now = (case applicableFrom r of None \<Rightarrow> False | Some a \<Rightarrow> a > now)"

text \<open>
  \<open>evaluateRequirement clk t r g\<close> starts when \<open>t\<close> readings of the clock have been made and
  returns, with the result, the number of readings made when it ends: its own, and the one
  of \<^verbatim>\<open>checkReporting\<close> on that branch.
\<close>

definition evaluateRequirement ::
  "clock \<Rightarrow> nat \<Rightarrow> ComplianceRequirement \<Rightarrow> Grant \<Rightarrow> ComplianceStatus \<times> nat" where
  "evaluateRequirement clk t r g =
     (let now = clk t
      in if notYetApplicable r now then
           (\<lparr>requirementId = req_id r, requirementName = req_name r,
             cs_description = req_description r, cs_status = not_applicable,
             evidence = [], lastChecked = now, cs_dueDate = req_dueDate r,
             cs_severity = req_severity r\<rparr>, Suc t)
         else
           (let ((status, ev), t') =
                  (case req_type r of
                     documentation \<Rightarrow> (checkDocumentation r g [], Suc t)
                   | financial \<Rightarrow> (checkFinancial r g [], Suc t)
                   | reporting \<Rightarrow> (checkReporting (clk (Suc t)) r g [], Suc (Suc t))
                   | performance \<Rightarrow> (checkPerformance r g [], Suc t)
                   | unrecognized \<Rightarrow> ((pending, []), Suc t))
            in (\<lparr>requirementId = req_id r, requirementName = req_name r,
                  cs_description = req_description r, cs_status = status,
                  evidence = ev, lastChecked = now, cs_dueDate = req_dueDate r,
                  cs_severity = req_severity r\<rparr>, t')))"

text \<open>The local variables of \<^verbatim>\<open>assessCompliance\<close> that its loop updates.\<close>

record Tally =
  complianceStatuses :: "ComplianceStatus list"
  compliantCount :: nat
  nonCompliantCount :: nat
  pendingCount :: nat
  highPriority :: nat
  mediumPriority :: nat
  lowPriority :: nat

text \<open>The \<^verbatim>\<open>push\<close> and the \<^verbatim>\<open>switch\<close> of the loop body.\<close>

definition tallyStatus :: "ComplianceStatus \<Rightarrow> Tally \<Rightarrow> Tally" where
  "tallyStatus status acc =
     (let acc = acc\<lparr>complianceStatuses := complianceStatuses acc @ [status]\<rparr>
      in case cs_status status of
           compliant \<Rightarrow> acc\<lparr>compliantCount := compliantCount acc + 1\<rparr>
         | non_compliant \<Rightarrow>
             (let acc = acc\<lparr>nonCompliantCount := nonCompliantCount acc + 1\<rparr>;
                  acc = (if cs_severity status = high
                         then acc\<lparr>highPriority := highPriority acc + 1\<rparr> else acc);
                  acc = (if cs_severity status = medium
                         then acc\<lparr>mediumPriority := mediumPriority acc + 1\<rparr> else acc);
                  acc = (if cs_severity status = low
                         then acc\<lparr>lowPriority := lowPriority acc + 1\<rparr> else acc)
              in acc)
         | pending \<Rightarrow> acc\<lparr>pendingCount := pendingCount acc + 1\<rparr>
         | not_applicable \<Rightarrow> acc)"

fun assessLoop ::
  "clock \<Rightarrow> Grant \<Rightarrow> ComplianceRequirement list \<Rightarrow> nat \<Rightarrow> Tally \<Rightarrow> Tally" where
  "assessLoop clk g [] t acc = acc"
| "assessLoop clk g (requirement # rest) t acc =
     (let (status, t') = evaluateRequirement clk t requirement g
      in assessLoop clk g rest t' (tallyStatus status acc))"

text \<open>
  The counters are integers. The product of \<^verbatim>\<open>totalRequirements\<close> and the literal
  \<^verbatim>\<open>0.3\<close>, which the integer \<^verbatim>\<open>pendingCount\<close> is compared with, is taken exactly.
\<close>

definition assessCompliance ::
  "clock \<Rightarrow> Grant \<Rightarrow> ComplianceRequirement list \<Rightarrow> ComplianceSummary" where
  "assessCompliance clk g reqs =
     (let now = clk 0;
          acc = assessLoop clk g reqs 1
                  \<lparr>complianceStatuses = [], compliantCount = 0, nonCompliantCount = 0,
                   pendingCount = 0, highPriority = 0, mediumPriority = 0, lowPriority = 0\<rparr>;
          totalRequirements' = length reqs;
          complianceRate' =
            (if totalRequirements' > 0
             then fdiv (ofNat (compliantCount acc)) (ofNat totalRequirements')
             else Fin 1);
          overallStatus' =
            (if nonCompliantCount acc > 0
             then (if highPriority acc > 0 then overall_non_compliant else at_risk)
             else if jsgt (ofNat (pendingCount acc)) (jsmul (ofNat totalRequirements') (Fin (3 / 10)))
             then at_risk
             else overall_compliant)
      in \<lparr>cs_grantId = g_id g,
          totalRequirements = totalRequirements',
          compliantRequirements = compliantCount acc,
          nonCompliantRequirements = nonCompliantCount acc,
          pendingRequirements = pendingCount acc,
          complianceRate = complianceRate',
          highPriorityIssues = highPriority acc,
          mediumPriorityIssues = mediumPriority acc,
          lowPriorityIssues = lowPriority acc,
          overallStatus = overallStatus',
          lastAssessment = now,
          requirements = complianceStatuses acc\<rparr>)"

section \<open>The specification's risk classification\<close>





section \<open>What the evaluation computes, stated on its results\<close>

text \<open>
  The statuses of a requirement list in evaluation order, as the loop of
  \<open>assessCompliance\<close> produces them one after the other with the clock it shares.
\<close>

fun evalList ::
  "clock \<Rightarrow> Grant \<Rightarrow> ComplianceRequirement list \<Rightarrow> nat \<Rightarrow> ComplianceStatus list" where
  "evalList clk g [] t = []"
| "evalList clk g (requirement # rest) t =
     (let (status, t') = evaluateRequirement clk t requirement g
      in status # evalList clk g rest t')"

text \<open>The counters of \<open>assessCompliance\<close> as counts over a list of statuses.\<close>

definition countStatus :: "CStatus \<Rightarrow> ComplianceStatus list \<Rightarrow> nat" where
  "countStatus st xs = length (filter (\<lambda>s. cs_status s = st) xs)"

definition countIssues :: "Severity \<Rightarrow> ComplianceStatus list \<Rightarrow> nat" where
  "countIssues sev xs =
     length (filter (\<lambda>s. cs_status s = non_compliant \<and> cs_severity s = sev) xs)"

definition tallyOf :: "ComplianceStatus list \<Rightarrow> Tally" where
  "tallyOf xs =
     \<lparr>complianceStatuses = xs,
      compliantCount = countStatus compliant xs,
      nonCompliantCount = countStatus non_compliant xs,
      pendingCount = countStatus pending xs,
      highPriority = countIssues high xs,
      mediumPriority = countIssues medium xs,
      lowPriority = countIssues low xs\<rparr>"

text \<open>
  The maximum that \<open>checkFinancial\<close> compares with: the parameter when it is present and
  truthy, and 1.0 when it is absent, zero or NaN.
\<close>

definition effectiveMax :: "ComplianceRequirement \<Rightarrow> jsnum" where
  "effectiveMax r =
     (case param maxUtilizationRate r of
        None \<Rightarrow> Fin 1
      | Some x \<Rightarrow> if isZero x \<or> isNaN x then Fin 1 else x)"

section \<open>Example inputs\<close>

text \<open>A ten-day grant of 100000, without milestones, expenditures, KPIs or documents.\<close>

definition sampleGrant :: Grant where
  "sampleGrant =
     \<lparr>g_id = ''G-1'', g_status = active, totalFunding = Fin 100000,
      startDate = 0, endDate = 864000000,
      milestones = [], expenditures = [], kpis = [], documents = [], reports = [],
      updatedBy = ''alice'', updatedAt = 0, version = Fin 1, history = []\<rparr>"

text \<open>The same grant with its timeline inverted: it ends ten days before it starts.\<close>

definition invertedGrant :: Grant where
  "invertedGrant = sampleGrant\<lparr>startDate := 864000000, endDate := 0\<rparr>"

definition sampleMilestone :: Milestone where
  "sampleMilestone =
     \<lparr>ms_id = ''M-1'', ms_name = ''kickoff'', ms_dueDate = 86400000, ms_status = ms_pending\<rparr>"

definition sampleExpenditure :: Expenditure where
  "sampleExpenditure = \<lparr>exp_id = ''E-1'', exp_amount = Fin 50, exp_status = exp_pending\<rparr>"

definition sampleKPI :: KPI where
  "sampleKPI = \<lparr>kpi_name = ''served'', targetValue = Fin 200, currentValue = Fin 150\<rparr>"

text \<open>A KPI with a zero target whose current value is not a number.\<close>

definition nanKPI :: KPI where
  "nanKPI = \<lparr>kpi_name = ''served'', targetValue = Fin 0, currentValue = NaN\<rparr>"

text \<open>A KPI with the finite values \<open>2^1023\<close> and 0.5, whose quotient is not a double.\<close>

definition overflowKPI :: KPI where
  "overflowKPI = \<lparr>kpi_name = ''reach'', targetValue = Fin (1 / 2), currentValue = Fin (2 ^ 1023)\<rparr>"

text \<open>A KPI named as the prototype accessor.\<close>

definition protoKPI :: KPI where
  "protoKPI = \<lparr>kpi_name = ''__proto__'', targetValue = Fin 200, currentValue = Fin 150\<rparr>"

text \<open>A clock that stands still during the evaluation.\<close>

definition fixedClock :: clock where
  "fixedClock k = 1000"

definition noParameters :: Parameters where
  "noParameters =
     \<lparr>requiredDocuments = None, maxUtilizationRate = None, reportType = None,
      minAchievementRate = None\<rparr>"

text \<open>A documentation requirement that asks for an approved budget document.\<close>

definition docRequirement :: ComplianceRequirement where
  "docRequirement =
     \<lparr>req_id = ''R-1'', req_name = ''budget on file'', req_description = ''approved budget'',
      req_type = documentation, req_severity = high, applicableFrom = None, req_dueDate = None,
      parameters = Some (noParameters\<lparr>requiredDocuments := Some [''budget'']\<rparr>)\<rparr>"

text \<open>The same requirement without a parameter bag.\<close>

definition noDocsRequirement :: ComplianceRequirement where
  "noDocsRequirement = docRequirement\<lparr>parameters := None\<rparr>"

definition approvedBudget :: Document where
  "approvedBudget = \<lparr>doc_id = ''D-1'', doc_type = ''budget'', doc_status = doc_approved\<rparr>"

text \<open>A financial requirement with a maximum utilization rate of 0.9.\<close>

definition financialRequirement :: ComplianceRequirement where
  "financialRequirement =
     \<lparr>req_id = ''R-2'', req_name = ''spending cap'', req_description = ''at most 90 percent'',
      req_type = financial, req_severity = medium, applicableFrom = None, req_dueDate = None,
      parameters = Some (noParameters\<lparr>maxUtilizationRate := Some (double (9 / 10))\<rparr>)\<rparr>"

text \<open>The same requirement with the maximum 0, with the maximum \<open>Infinity\<close>, and with a
  date of applicability after the fixed clock.\<close>

definition zeroMaxRequirement :: ComplianceRequirement where
  "zeroMaxRequirement =
     financialRequirement\<lparr>parameters := Some (noParameters\<lparr>maxUtilizationRate := Some (Fin 0)\<rparr>)\<rparr>"

definition unlimitedRequirement :: ComplianceRequirement where
  "unlimitedRequirement =
     financialRequirement\<lparr>parameters := Some (noParameters\<lparr>maxUtilizationRate := Some PInf\<rparr>)\<rparr>"

definition futureRequirement :: ComplianceRequirement where
  "futureRequirement = financialRequirement\<lparr>applicableFrom := Some 2000\<rparr>"

text \<open>The sample grant with 95000 spent, of which 35000 are not approved.\<close>

definition spendingGrant :: Grant where
  "spendingGrant =
     sampleGrant\<lparr>expenditures :=
       [\<lparr>exp_id = ''E-2'', exp_amount = Fin 60000, exp_status = exp_approved\<rparr>,
        \<lparr>exp_id = ''E-3'', exp_amount = Fin 35000, exp_status = exp_pending\<rparr>]\<rparr>"

text \<open>The sample grant without funding, with one expenditure of 50 and with none.\<close>

definition unfundedGrant :: Grant where
  "unfundedGrant = sampleGrant\<lparr>totalFunding := Fin 0, expenditures := [sampleExpenditure]\<rparr>"

definition emptyUnfundedGrant :: Grant where
  "emptyUnfundedGrant = sampleGrant\<lparr>totalFunding := Fin 0\<rparr>"

text \<open>
  A financial requirement without parameters, and a grant of 1200.3 with three expenditures
  of 400.1: in exact arithmetic they sum to the funding, in doubles to a little more.
\<close>

definition defaultCapRequirement :: ComplianceRequirement where
  "defaultCapRequirement = financialRequirement\<lparr>parameters := None\<rparr>"

text \<open>A financial requirement whose maximum is the utilization 0.95 of the spending grant.\<close>

definition atCapRequirement :: ComplianceRequirement where
  "atCapRequirement =
     financialRequirement\<lparr>parameters :=
       Some (noParameters\<lparr>maxUtilizationRate := Some (double (95 / 100))\<rparr>)\<rparr>"

definition roundingGrant :: Grant where
  "roundingGrant =
     sampleGrant\<lparr>totalFunding := double (12003 / 10),
       expenditures :=
         [\<lparr>exp_id = ''E-4'', exp_amount = double (4001 / 10), exp_status = exp_approved\<rparr>,
          \<lparr>exp_id = ''E-5'', exp_amount = double (4001 / 10), exp_status = exp_approved\<rparr>,
          \<lparr>exp_id = ''E-6'', exp_amount = double (4001 / 10), exp_status = exp_approved\<rparr>]\<rparr>"

section \<open>Arithmetic on finite numbers\<close>

lemma jssub_Fin: "jssub (Fin a) (Fin b) = Fin (a - b)"
  by (simp add: jssub_def)

lemma jsdiv_Fin_pos: "0 < b \<Longrightarrow> jsdiv (Fin a) (Fin b) = Fin (a / b)"
  by (simp add: jsdiv_def signedZero_def)

lemma jsmul_ofNat: "jsmul (ofNat n) (Fin (3 / 10)) = Fin (of_nat n * (3 / 10))"
  by (simp add: jsmul_def ofNat_def signedZero_def)

lemma jsgt_Fin: "jsgt (Fin a) (Fin b) \<longleftrightarrow> b < a"
  by (simp add: jsgt_def)

section \<open>Rounding\<close>

text \<open>A rounded result is never NaN, and rounding keeps NaN apart from the other values.\<close>

lemma round64_not_NaN: "round64 x \<noteq> NaN"
  by (simp add: round64_def Let_def signedInf_def signedZero_def)

lemma isNaN_rnd: "isNaN (rnd y) \<longleftrightarrow> isNaN y"
proof (cases y)
  case (Fin s)
  then show ?thesis
    using round64_not_NaN [of s] by (cases "round64 s") simp_all
qed simp_all

lemma rnd_NaN: "rnd y = NaN \<longleftrightarrow> y = NaN"
  using isNaN_rnd [of y] by (cases y; cases "rnd y") auto

subsection \<open>Evaluation\<close>

text \<open>The definitions without their local bindings, to evaluate them on numerals.\<close>

lemma bitLength_unfold: "bitLength n = (if n = 0 then 0 else 1 + bitLength (n div 2))"
  by (cases n) simp_all

lemma floor_rat_numeral: "\<lfloor>(numeral a :: rat) / numeral b\<rfloor> = numeral a div numeral b"
  using floor_divide_of_int_eq [of "numeral a" "numeral b", where ?'a = rat] by simp

lemma ilog2_unfold:
  "ilog2 a =
     (if 1 \<le> a then bitLength (nat \<lfloor>a\<rfloor>) - 1
      else if a = pow2 (- (bitLength (nat \<lfloor>1 / a\<rfloor>) - 1))
      then - (bitLength (nat \<lfloor>1 / a\<rfloor>) - 1)
      else - (bitLength (nat \<lfloor>1 / a\<rfloor>) - 1) - 1)"
  by (simp add: ilog2_def Let_def)

lemma roundHalfEven_unfold:
  "roundHalfEven y =
     (if y - of_int \<lfloor>y\<rfloor> < 1 / 2 then \<lfloor>y\<rfloor>
      else if 1 / 2 < y - of_int \<lfloor>y\<rfloor> then \<lfloor>y\<rfloor> + 1
      else if even \<lfloor>y\<rfloor> then \<lfloor>y\<rfloor> else \<lfloor>y\<rfloor> + 1)"
  by (simp add: roundHalfEven_def Let_def)

lemma round64_unfold:
  "round64 x =
     (if x = 0 then Fin 0
      else if pow2 1024 \<le> of_int (roundHalfEven (\<bar>x\<bar> / pow2 (max (ilog2 \<bar>x\<bar>) (- 1022) - 52)))
                          * pow2 (max (ilog2 \<bar>x\<bar>) (- 1022) - 52)
      then signedInf (x < 0)
      else if roundHalfEven (\<bar>x\<bar> / pow2 (max (ilog2 \<bar>x\<bar>) (- 1022) - 52)) = 0
      then signedZero (x < 0)
      else Fin (if x < 0
                then - (of_int (roundHalfEven (\<bar>x\<bar> / pow2 (max (ilog2 \<bar>x\<bar>) (- 1022) - 52)))
                        * pow2 (max (ilog2 \<bar>x\<bar>) (- 1022) - 52))
                else of_int (roundHalfEven (\<bar>x\<bar> / pow2 (max (ilog2 \<bar>x\<bar>) (- 1022) - 52)))
                     * pow2 (max (ilog2 \<bar>x\<bar>) (- 1022) - 52)))"
  by (simp add: round64_def Let_def)

lemmas roundEval =
  round64_unfold ilog2_unfold roundHalfEven_unfold pow2_def bitLength_unfold floor_rat_numeral
  signedInf_def signedZero_def double_def fadd_def fsub_def fdiv_def jssub_def jsdiv_def

text \<open>
  Two results of the addition: \<open>0.1 + 0.2\<close> is not the double \<open>0.3\<close>, and \<open>2^53 + 1\<close>
  is \<open>2^53\<close>.
\<close>

lemma fadd_tenths:
  "fadd (double (1 / 10)) (double (2 / 10)) = Fin (1351079888211149 / 2 ^ 52)"
  "double (3 / 10) = Fin (5404319552844595 / 2 ^ 54)"
  by (simp_all add: roundEval)

lemma fadd_safe_integer_limit: "fadd (Fin (2 ^ 53)) (Fin 1) = Fin (2 ^ 53)"
  by (simp add: roundEval)

subsection \<open>Powers of two\<close>

lemma bitLength_pow2: "bitLength (2 ^ k) = 1 + int k"
proof (induction k)
  case 0
  show ?case by (simp add: bitLength_unfold)
next
  case (Suc k)
  have "bitLength (2 ^ Suc k) = 1 + bitLength (2 ^ Suc k div 2)"
    by (subst bitLength_unfold) simp
  then show ?case by (simp add: Suc)
qed

lemma ilog2_pow2: "ilog2 (2 ^ k) = int k"
proof -
  have "nat \<lfloor>(2::rat) ^ k\<rfloor> = 2 ^ k"
    by (simp add: nat_power_eq)
  then have "bitLength (nat \<lfloor>(2::rat) ^ k\<rfloor>) - 1 = int k"
    by (simp only: bitLength_pow2)
  moreover have "(1::rat) \<le> 2 ^ k"
    by simp
  ultimately show ?thesis
    by (simp only: ilog2_def if_True)
qed

text \<open>A power of two from \<open>2^1024\<close> on overflows.\<close>

lemma round64_pow2_overflow:
  assumes "1024 \<le> k"
  shows "round64 (2 ^ k) = PInf"
proof -
  have a: "\<bar>(2::rat) ^ k\<bar> = 2 ^ k"
    by simp
  have nz: "((2::rat) ^ k = 0) = False" "((2::rat) ^ k < 0) = False"
    by simp_all
  have e: "max (ilog2 ((2::rat) ^ k)) (- 1022) - 52 = int (k - 52)"
    using assms by (simp add: ilog2_pow2)
  have q: "pow2 (int (k - 52)) = 2 ^ (k - 52)"
    by (simp add: pow2_def)
  have "(2::rat) ^ k = 2 ^ (52 + (k - 52))"
    using assms by simp
  also have "\<dots> = 2 ^ 52 * 2 ^ (k - 52)"
    by (rule power_add)
  finally have split: "(2::rat) ^ k = 2 ^ 52 * 2 ^ (k - 52)" .
  have quot: "(2::rat) ^ k / 2 ^ (k - 52) = 2 ^ 52"
    unfolding split by simp
  have n: "roundHalfEven (2 ^ 52) = 2 ^ 52"
    by (simp add: roundHalfEven_def Let_def)
  have m: "of_int (2 ^ 52) * (2::rat) ^ (k - 52) = 2 ^ k"
    unfolding split by simp
  have le: "(2::rat) ^ 1024 \<le> 2 ^ k"
    using assms by (intro power_increasing) simp_all
  have p1024: "pow2 1024 = 2 ^ 1024"
    by (simp add: pow2_def)
  have big: "(pow2 1024 \<le> 2 ^ k) = True"
    unfolding p1024 using le by simp
  have "round64 (2 ^ k) = signedInf False"
    by (simp only: round64_unfold a e q quot n m nz big if_False if_True)
  then show ?thesis
    by (simp add: signedInf_def)
qed

lemma find_in_set: "find P xs = Some x \<Longrightarrow> x \<in> set xs"
  by (induction xs) (auto split: if_splits)

section \<open>The mutation methods of \<^verbatim>\<open>Grant\<close>\<close>

text \<open>
  All three methods increment the version (\<^verbatim>\<open>version++\<close>, an addition of doubles) and
  none rewrites or removes a history entry. Only \<open>updateStatus\<close> appends one.
\<close>

lemma addMilestone_fields:
  "milestones (addMilestone now m g) = milestones g @ [m]"
  "version (addMilestone now m g) = fadd (version g) (Fin 1)"
  "history (addMilestone now m g) = history g"
  by (simp_all add: addMilestone_def)

lemma addExpenditure_fields:
  "expenditures (addExpenditure now e g) = expenditures g @ [e]"
  "version (addExpenditure now e g) = fadd (version g) (Fin 1)"
  "history (addExpenditure now e g) = history g"
  by (simp_all add: addExpenditure_def)

lemma updateStatus_fields:
  "g_status (updateStatus clk s u g) = s"
  "version (updateStatus clk s u g) = fadd (version g) (Fin 1)"
  "history (updateStatus clk s u g) =
     history g @ [\<lparr>h_date = clk 1, h_action = ''STATUS_CHANGE'', h_user = u,
                    h_changes = [(''status'', FromTo (g_status g) s)]\<rparr>]"
  by (simp_all add: updateStatus_def Let_def)

text \<open>
  C2 (the code at the failing input): \<open>addMilestone\<close> and \<open>addExpenditure\<close> change the
  grant's collections of the sample grant and bump its version from 1 to 2, but its audit
  history has as many entries after the call as before: no entry is appended.
\<close>

theorem C2_add_methods_append_no_history:
  "length (history (addMilestone 1000 sampleMilestone sampleGrant)) = length (history sampleGrant)
   \<and> milestones (addMilestone 1000 sampleMilestone sampleGrant) \<noteq> milestones sampleGrant
   \<and> version sampleGrant = Fin 1
   \<and> version (addMilestone 1000 sampleMilestone sampleGrant) = Fin 2
   \<and> length (history (addExpenditure 1000 sampleExpenditure sampleGrant))
       = length (history sampleGrant)
   \<and> expenditures (addExpenditure 1000 sampleExpenditure sampleGrant) \<noteq> expenditures sampleGrant
   \<and> version (addExpenditure 1000 sampleExpenditure sampleGrant) = Fin 2"
  by (simp add: addMilestone_def addExpenditure_def sampleGrant_def roundEval)

section \<open>Progress metrics\<close>

lemma totalDays_pos:
  assumes "s < (e::int)"
  shows "\<exists>d. jsceil (jsdiv (jssub (getTime e) (getTime s)) msPerDay) = Fin d \<and> 1 \<le> d"
proof -
  have q: "0 < (of_int (e - s) :: rat) / 86400000"
    using assms by simp
  then have "0 < \<lceil>(of_int (e - s) :: rat) / 86400000\<rceil>"
    by (simp add: ceiling_less_iff del: of_int_diff)
  then have "1 \<le> (of_int \<lceil>(of_int (e - s) :: rat) / 86400000\<rceil> :: rat)"
    by linarith
  moreover have "\<not> (of_int (e - s) :: rat) / 86400000 < 0"
    using q by linarith
  ultimately show ?thesis
    by (simp add: getTime_def msPerDay_def jssub_Fin jsdiv_Fin_pos)
qed

lemma daysElapsed_finite:
  "isFinite (jsceil (jsdiv (jssub (getTime n) (getTime s)) msPerDay))"
  by (simp add: getTime_def msPerDay_def jssub_Fin jsdiv_Fin_pos)

text \<open>Whatever is not NaN is clamped into the unit interval.\<close>

lemma clamp_not_NaN:
  assumes "\<not> isNaN y"
  shows "\<exists>p. jsmin (jsmax y (Fin 0)) (Fin 1) = Fin p \<and> 0 \<le> p \<and> p \<le> 1"
  using assms by (cases y) (auto simp: jsmax_def jsmin_def)

lemma jsdiv_finite_not_NaN:
  assumes "isFinite x" and "1 \<le> d"
  shows "\<not> isNaN (jsdiv x (Fin d))"
  using assms by (cases x) (auto simp: jsdiv_def signedZero_def)

lemma clamp_unit:
  assumes "isFinite x" and "1 \<le> d"
  shows "\<exists>p. jsmin (jsmax (fdiv x (Fin d)) (Fin 0)) (Fin 1) = Fin p \<and> 0 \<le> p \<and> p \<le> 1"
proof -
  have "\<not> isNaN (fdiv x (Fin d))"
    using jsdiv_finite_not_NaN [OF assms] by (simp add: fdiv_def isNaN_rnd)
  then show ?thesis
    by (rule clamp_not_NaN)
qed

text \<open>
  C1 (the claim fails): the grant whose \<open>endDate\<close> lies ten days before its \<open>startDate\<close>
  does not make \<open>calculateProgress\<close> fail with \<open>InvalidGrantError\<close>; the call returns a
  record, whose \<open>totalDays\<close> is \<open>-10\<close>.
\<close>

theorem C1_inverted_timeline_returns:
  "endDate invertedGrant \<le> startDate invertedGrant
   \<and> calculateProgress 1296000000 invertedGrant \<noteq> Inl InvalidGrantError
   \<and> totalDays (projr (calculateProgress 1296000000 invertedGrant)) = Fin (- 10)"
  by (simp add: invertedGrant_def sampleGrant_def calculateProgress_def Let_def getTime_def
      msPerDay_def jssub_Fin jsdiv_Fin_pos)

text \<open>
  C1 (amended): \<open>calculateProgress\<close> returns a \<open>GrantProgressMetrics\<close> record for every
  grant, whatever the order of its dates; when \<open>startDate < endDate\<close> the record has a
  \<open>totalDays\<close> of at least one and a \<open>timelineProgress\<close> between 0 and 1.
\<close>

theorem C1_calculateProgress_returns:
  "(\<exists>m. calculateProgress now g = Inr m)
   \<and> (startDate g < endDate g \<longrightarrow>
        (\<exists>m d p. calculateProgress now g = Inr m \<and> totalDays m = Fin d \<and> 1 \<le> d
                 \<and> timelineProgress m = Fin p \<and> 0 \<le> p \<and> p \<le> 1))"
proof (intro conjI impI)
  show "\<exists>m. calculateProgress now g = Inr m"
    by (simp add: calculateProgress_def Let_def)
next
  assume lt: "startDate g < endDate g"
  obtain d where d:
    "jsceil (jsdiv (jssub (getTime (endDate g)) (getTime (startDate g))) msPerDay) = Fin d"
    "1 \<le> d"
    using totalDays_pos [OF lt] by blast
  obtain p where p:
    "jsmin (jsmax (fdiv (jsceil (jsdiv (jssub (getTime now) (getTime (startDate g))) msPerDay))
                     (Fin d)) (Fin 0)) (Fin 1) = Fin p"
    "0 \<le> p" "p \<le> 1"
    using clamp_unit [OF daysElapsed_finite d(2)] by blast
  show "\<exists>m d p. calculateProgress now g = Inr m \<and> totalDays m = Fin d \<and> 1 \<le> d
                 \<and> timelineProgress m = Fin p \<and> 0 \<le> p \<and> p \<le> 1"
    using d p by (simp add: calculateProgress_def Let_def)
qed

text \<open>C1 (witness): the sample grant, five days after its start.\<close>

theorem C1_calculateProgress_returns_witness:
  "startDate sampleGrant < endDate sampleGrant
   \<and> (\<exists>m d p. calculateProgress 432000000 sampleGrant = Inr m \<and> totalDays m = Fin d \<and> 1 \<le> d
                 \<and> timelineProgress m = Fin p \<and> 0 \<le> p \<and> p \<le> 1)"
proof -
  have h: "startDate sampleGrant < endDate sampleGrant"
    by (simp add: sampleGrant_def)
  show ?thesis
    using h C1_calculateProgress_returns [of 432000000 sampleGrant] by blast
qed


lemma risk_NaN_high: "calculateRiskLevel NaN u m = risk_high"
  by (simp add: calculateRiskLevel_def Let_def fsub_def fadd_def fdiv_def jssub_def jsdiv_def)




subsection \<open>KPI achievement\<close>

lemma kpiLoop_append:
  "kpiLoop (xs @ [k]) acc = setProperty (kpiLoop xs acc) (kpi_name k) (kpiEntry k)"
  by (induction xs arbitrary: acc) simp_all

text \<open>
  The loop overwrites: the entry of a name is that of the last KPI that bears it. The name
  of the prototype accessor never gets an entry.
\<close>

lemma kpiLoop_lookup:
  "kpiLoop ks acc n =
     (if n = ''__proto__'' then acc n
      else case find (\<lambda>k. kpi_name k = n) (rev ks) of
             None \<Rightarrow> acc n
           | Some k \<Rightarrow> Some (kpiEntry k))"
proof (induction ks rule: rev_induct)
  case Nil
  show ?case by simp
next
  case (snoc k ks)
  have "kpiLoop (ks @ [k]) acc n =
          (if n = ''__proto__'' then kpiLoop ks acc n
           else if kpi_name k = n then Some (kpiEntry k) else kpiLoop ks acc n)"
    by (auto simp add: kpiLoop_append setProperty_def)
  also have "\<dots> =
          (if n = ''__proto__'' then acc n
           else case find (\<lambda>k. kpi_name k = n) (rev (ks @ [k])) of
                  None \<Rightarrow> acc n
                | Some k \<Rightarrow> Some (kpiEntry k))"
    by (cases "n = ''__proto__''") (use snoc in simp_all)
  finally show ?case .
qed

text \<open>A quotient is NaN only for a NaN operand, two zeros or two infinities.\<close>

lemma fdiv_finite_not_NaN:
  assumes "isFinite x" and "isFinite y" and "\<not> isZero y"
  shows "\<not> isNaN (fdiv x y)"
proof -
  have "\<not> isNaN (jsdiv x y)"
    using assms by (cases x; cases y) (auto simp: jsdiv_def signedZero_def)
  then show ?thesis
    by (simp add: fdiv_def isNaN_rnd)
qed

lemma kpiEntry_not_NaN:
  "isFinite (currentValue k) \<Longrightarrow> isFinite (targetValue k) \<Longrightarrow> \<not> isNaN (kpiEntry k)"
  by (cases "currentValue k") (auto simp: kpiEntry_def fdiv_finite_not_NaN)

text \<open>
  C6 (the claim fails): a KPI with target 0 and current value NaN gets the entry NaN; a KPI
  with the finite values \<open>2^1023\<close> and 0.5 gets the entry \<open>Infinity\<close>, since the quotient
  overflows; and a KPI named \<^verbatim>\<open>__proto__\<close> with a nonzero target gets no entry at all.
\<close>

theorem C6_nan_infinity_and_missing_entries:
  "calculateKPIAchievement [nanKPI] ''served'' = Some NaN
   \<and> isFinite (currentValue overflowKPI) \<and> isFinite (targetValue overflowKPI)
   \<and> calculateKPIAchievement [overflowKPI] ''reach'' = Some PInf
   \<and> calculateKPIAchievement [protoKPI] (kpi_name protoKPI) = None"
proof -
  have "round64 (2 ^ 1024) = PInf"
    by (rule round64_pow2_overflow) simp
  then have "fdiv (Fin (2 ^ 1023)) (Fin (1 / 2)) = PInf"
    by (simp add: fdiv_def jsdiv_def)
  then show ?thesis
    by (simp add: calculateKPIAchievement_def nanKPI_def overflowKPI_def protoKPI_def
        kpiEntry_def setProperty_def)
qed

text \<open>
  C6 (amended): the name \<^verbatim>\<open>__proto__\<close> has no entry. The entry of any other name is
  computed from the last KPI of the list with that name: its \<open>currentValue\<close> when its
  \<open>targetValue\<close> is zero, the quotient \<open>currentValue / targetValue\<close> (a double) otherwise.
  When the current and target values of all KPIs are finite numbers, no entry is NaN.
\<close>

theorem C6_kpi_achievement:
  "calculateKPIAchievement ks n =
     (if n = ''__proto__'' then None
      else case find (\<lambda>k. kpi_name k = n) (rev ks) of
             None \<Rightarrow> None
           | Some k \<Rightarrow> Some (if isZero (targetValue k) then currentValue k
                             else fdiv (currentValue k) (targetValue k)))
   \<and> ((\<forall>k \<in> set ks. isFinite (currentValue k) \<and> isFinite (targetValue k)) \<longrightarrow>
        (\<forall>v. calculateKPIAchievement ks n = Some v \<longrightarrow> \<not> isNaN v))"
proof (intro conjI impI allI)
  show "calculateKPIAchievement ks n =
     (if n = ''__proto__'' then None
      else case find (\<lambda>k. kpi_name k = n) (rev ks) of
             None \<Rightarrow> None
           | Some k \<Rightarrow> Some (if isZero (targetValue k) then currentValue k
                             else fdiv (currentValue k) (targetValue k)))"
    by (simp add: calculateKPIAchievement_def kpiLoop_lookup kpiEntry_def split: option.splits)
next
  fix v
  assume fin: "\<forall>k \<in> set ks. isFinite (currentValue k) \<and> isFinite (targetValue k)"
    and v: "calculateKPIAchievement ks n = Some v"
  from v obtain k where k: "find (\<lambda>k. kpi_name k = n) (rev ks) = Some k" "v = kpiEntry k"
    by (auto simp: calculateKPIAchievement_def kpiLoop_lookup split: option.splits if_splits)
  from k(1) have "k \<in> set ks"
    using find_in_set by fastforce
  with fin k(2) show "\<not> isNaN v"
    by (simp add: kpiEntry_not_NaN)
qed

text \<open>C6 (witness): one KPI with target 200 and current value 150 has the entry 0.75.\<close>

theorem C6_kpi_achievement_witness:
  "isFinite (currentValue sampleKPI) \<and> isFinite (targetValue sampleKPI)
   \<and> calculateKPIAchievement [sampleKPI] ''served'' = Some (Fin (3 / 4))
   \<and> \<not> isNaN (Fin (3 / 4))"
proof -
  note inst = C6_kpi_achievement [of "[sampleKPI]" "''served''"]
  have h: "\<forall>k \<in> set [sampleKPI]. isFinite (currentValue k) \<and> isFinite (targetValue k)"
    by (simp add: sampleKPI_def)
  have e: "calculateKPIAchievement [sampleKPI] ''served'' = Some (Fin (3 / 4))"
    by (subst conjunct1 [OF inst]) (simp add: sampleKPI_def roundEval)
  have f: "\<forall>v. calculateKPIAchievement [sampleKPI] ''served'' = Some v \<longrightarrow> \<not> isNaN v"
    using conjunct2 [OF inst] h by (rule mp)
  from f e have "\<not> isNaN (Fin (3 / 4))"
    by blast
  with h e show ?thesis by simp
qed

section \<open>Compliance evaluation\<close>

subsection \<open>The loop of \<open>assessCompliance\<close>\<close>

lemma tallyStatus_tallyOf: "tallyStatus s (tallyOf xs) = tallyOf (xs @ [s])"
  by (cases "cs_status s"; cases "cs_severity s")
     (simp_all add: tallyStatus_def tallyOf_def countStatus_def countIssues_def Let_def)

lemma assessLoop_tallyOf:
  "assessLoop clk g reqs t (tallyOf xs) = tallyOf (xs @ evalList clk g reqs t)"
proof (induction reqs arbitrary: t xs)
  case Nil
  show ?case by simp
next
  case (Cons r rs)
  show ?case
    by (simp add: tallyStatus_tallyOf Cons split: prod.split)
qed

lemma assessLoop_initial:
  "assessLoop clk g reqs (Suc 0)
     \<lparr>complianceStatuses = [], compliantCount = 0, nonCompliantCount = 0,
      pendingCount = 0, highPriority = 0, mediumPriority = 0, lowPriority = 0\<rparr>
   = tallyOf (evalList clk g reqs 1)"
proof -
  have "\<lparr>complianceStatuses = [], compliantCount = 0, nonCompliantCount = 0,
      pendingCount = 0, highPriority = 0, mediumPriority = 0, lowPriority = 0\<rparr> = tallyOf []"
    by (simp add: tallyOf_def countStatus_def countIssues_def)
  then show ?thesis
    using assessLoop_tallyOf [of clk g reqs "Suc 0" "[]"] by simp
qed

lemma length_evalList: "length (evalList clk g reqs t) = length reqs"
  by (induction reqs arbitrary: t) (simp_all split: prod.split)

lemma countStatus_pos: "0 < countStatus st xs \<longleftrightarrow> (\<exists>x \<in> set xs. cs_status x = st)"
  by (auto simp: countStatus_def filter_empty_conv)

lemma countIssues_pos:
  "0 < countIssues sev xs \<longleftrightarrow> (\<exists>x \<in> set xs. cs_status x = non_compliant \<and> cs_severity x = sev)"
  by (auto simp: countIssues_def filter_empty_conv)

lemma assessCompliance_fields:
  "requirements (assessCompliance clk g reqs) = evalList clk g reqs 1"
  "totalRequirements (assessCompliance clk g reqs) = length reqs"
  "compliantRequirements (assessCompliance clk g reqs) = countStatus compliant (evalList clk g reqs 1)"
  "nonCompliantRequirements (assessCompliance clk g reqs) = countStatus non_compliant (evalList clk g reqs 1)"
  "pendingRequirements (assessCompliance clk g reqs) = countStatus pending (evalList clk g reqs 1)"
  "highPriorityIssues (assessCompliance clk g reqs) = countIssues high (evalList clk g reqs 1)"
  by (simp_all add: assessCompliance_def Let_def assessLoop_initial tallyOf_def)

lemma assessCompliance_overall:
  "overallStatus (assessCompliance clk g reqs) =
     (if 0 < countStatus non_compliant (evalList clk g reqs 1)
      then (if 0 < countIssues high (evalList clk g reqs 1) then overall_non_compliant else at_risk)
      else if of_nat (length reqs) * (3 / 10) < (of_nat (countStatus pending (evalList clk g reqs 1)) :: rat)
      then at_risk else overall_compliant)"
  by (simp add: assessCompliance_def Let_def assessLoop_initial tallyOf_def jsmul_ofNat)
     (simp add: ofNat_def jsgt_Fin)

lemma assessCompliance_rate:
  "complianceRate (assessCompliance clk g reqs) =
     (if 0 < length reqs
      then fdiv (ofNat (countStatus compliant (evalList clk g reqs 1))) (ofNat (length reqs))
      else Fin 1)"
  by (simp add: assessCompliance_def Let_def assessLoop_initial tallyOf_def)

subsection \<open>One requirement\<close>

lemma evaluateRequirement_future:
  "notYetApplicable r (clk t) \<Longrightarrow>
   cs_status (fst (evaluateRequirement clk t r g)) = not_applicable
   \<and> evidence (fst (evaluateRequirement clk t r g)) = []"
  by (simp add: evaluateRequirement_def Let_def)

lemma evaluateRequirement_documentation:
  "req_type r = documentation \<Longrightarrow> \<not> notYetApplicable r (clk t) \<Longrightarrow>
   cs_status (fst (evaluateRequirement clk t r g)) = fst (checkDocumentation r g [])"
  by (simp add: evaluateRequirement_def Let_def split: prod.split)

lemma evaluateRequirement_financial:
  "req_type r = financial \<Longrightarrow> \<not> notYetApplicable r (clk t) \<Longrightarrow>
   cs_status (fst (evaluateRequirement clk t r g)) = fst (checkFinancial r g [])"
  by (simp add: evaluateRequirement_def Let_def split: prod.split)

lemma evaluateRequirement_severity:
  "cs_severity (fst (evaluateRequirement clk t r g)) = req_severity r"
  by (simp add: evaluateRequirement_def Let_def split: prod.split)

lemma evalList_nth:
  "i < length reqs \<Longrightarrow>
   \<exists>t'. evalList clk g reqs t ! i = fst (evaluateRequirement clk t' (reqs ! i) g)"
proof (induction reqs arbitrary: t i)
  case Nil
  then show ?case by simp
next
  case (Cons r rs)
  show ?case
  proof (cases i)
    case 0
    have "evalList clk g (r # rs) t ! 0 = fst (evaluateRequirement clk t r g)"
      by (simp split: prod.split)
    with 0 show ?thesis by auto
  next
    case (Suc j)
    with Cons.prems have j: "j < length rs" by simp
    have "evalList clk g (r # rs) t ! Suc j
            = evalList clk g rs (snd (evaluateRequirement clk t r g)) ! j"
      by (simp split: prod.split)
    with Cons.IH [OF j, of "snd (evaluateRequirement clk t r g)"] Suc show ?thesis
      by simp
  qed
qed

lemma evalList_severity: "map cs_severity (evalList clk g reqs t) = map req_severity reqs"
  by (induction reqs arbitrary: t) (simp_all add: evaluateRequirement_def Let_def split: prod.split)

text \<open>
  C4: the summary lists the results of evaluating the requirements, in their order and each
  with the severity of its requirement, and its overall status is \<open>non-compliant\<close> if one of them is
  non-compliant with severity high; else \<open>at-risk\<close> if one of them is non-compliant; else
  \<open>at-risk\<close> if the number of pending ones exceeds 0.3 times the number of requirements;
  else \<open>compliant\<close>.
\<close>

theorem C4_overall_status:
  "totalRequirements (assessCompliance clk g reqs) = length reqs
   \<and> length (requirements (assessCompliance clk g reqs)) = length reqs
   \<and> (\<forall>i < length reqs. \<exists>t.
         requirements (assessCompliance clk g reqs) ! i
           = fst (evaluateRequirement clk t (reqs ! i) g))
   \<and> map cs_severity (requirements (assessCompliance clk g reqs)) = map req_severity reqs
   \<and> pendingRequirements (assessCompliance clk g reqs)
       = length (filter (\<lambda>x. cs_status x = pending) (requirements (assessCompliance clk g reqs)))
   \<and> overallStatus (assessCompliance clk g reqs) =
       (if \<exists>x \<in> set (requirements (assessCompliance clk g reqs)).
             cs_status x = non_compliant \<and> cs_severity x = high
        then overall_non_compliant
        else if \<exists>x \<in> set (requirements (assessCompliance clk g reqs)).
                  cs_status x = non_compliant
        then at_risk
        else if (3 / 10) * of_nat (totalRequirements (assessCompliance clk g reqs))
                < (of_nat (pendingRequirements (assessCompliance clk g reqs)) :: rat)
        then at_risk
        else overall_compliant)"
proof -
  let ?rs = "evalList clk g reqs 1"
  have nth: "\<forall>i < length reqs. \<exists>t. ?rs ! i = fst (evaluateRequirement clk t (reqs ! i) g)"
    using evalList_nth by blast
  have imp: "(\<exists>x \<in> set ?rs. cs_status x = non_compliant \<and> cs_severity x = high)
        \<Longrightarrow> (\<exists>x \<in> set ?rs. cs_status x = non_compliant)"
    by blast
  have overall: "overallStatus (assessCompliance clk g reqs) =
       (if \<exists>x \<in> set ?rs. cs_status x = non_compliant \<and> cs_severity x = high
        then overall_non_compliant
        else if \<exists>x \<in> set ?rs. cs_status x = non_compliant
        then at_risk
        else if (3 / 10) * of_nat (length reqs) < (of_nat (countStatus pending ?rs) :: rat)
        then at_risk
        else overall_compliant)"
    using imp
    by (auto simp add: assessCompliance_overall countStatus_pos countIssues_pos mult.commute)
  show ?thesis
    unfolding assessCompliance_fields overall
    using nth by (simp add: length_evalList evalList_severity countStatus_def)
qed

text \<open>
  C4 (witness): the budget requirement (severity high) and the spending cap are both
  non-compliant on the spending grant, and the overall status is \<open>non-compliant\<close>.
\<close>

theorem C4_overall_status_witness:
  "(0::nat) < length [docRequirement, financialRequirement]
   \<and> (\<exists>t. requirements (assessCompliance fixedClock spendingGrant [docRequirement, financialRequirement]) ! 0
            = fst (evaluateRequirement fixedClock t ([docRequirement, financialRequirement] ! 0) spendingGrant))
   \<and> map cs_status (requirements (assessCompliance fixedClock spendingGrant [docRequirement, financialRequirement]))
       = [non_compliant, non_compliant]
   \<and> map cs_severity (requirements (assessCompliance fixedClock spendingGrant [docRequirement, financialRequirement]))
       = [high, medium]
   \<and> overallStatus (assessCompliance fixedClock spendingGrant [docRequirement, financialRequirement])
       = overall_non_compliant"
proof -
  note inst = C4_overall_status [of fixedClock spendingGrant "[docRequirement, financialRequirement]"]
  have len: "(0::nat) < length [docRequirement, financialRequirement]"
    by simp
  have nth: "\<exists>t. requirements (assessCompliance fixedClock spendingGrant [docRequirement, financialRequirement]) ! 0
            = fst (evaluateRequirement fixedClock t ([docRequirement, financialRequirement] ! 0) spendingGrant)"
    using inst len by blast
  have sev: "map cs_severity (requirements (assessCompliance fixedClock spendingGrant [docRequirement, financialRequirement]))
       = [high, medium]"
    using inst by (simp add: docRequirement_def financialRequirement_def)
  have st: "map cs_status (requirements (assessCompliance fixedClock spendingGrant [docRequirement, financialRequirement]))
       = [non_compliant, non_compliant]"
    by (simp add: assessCompliance_fields(1) evaluateRequirement_def Let_def notYetApplicable_def
        docRequirement_def financialRequirement_def checkDocumentation_def checkFinancial_def
        listOr_def numOr_def param_def noParameters_def spendingGrant_def sampleGrant_def
        sumAmounts_def jsgt_def roundEval)
  have ex: "\<exists>x \<in> set (requirements (assessCompliance fixedClock spendingGrant [docRequirement, financialRequirement])).
             cs_status x = non_compliant \<and> cs_severity x = high"
  proof -
    let ?rs = "requirements (assessCompliance fixedClock spendingGrant [docRequirement, financialRequirement])"
    have l: "length ?rs = 2" using inst by simp
    have "cs_status (?rs ! 0) = non_compliant"
      using st l by (metis length_map nth_map nth_Cons_0 zero_less_numeral)
    moreover have "cs_severity (?rs ! 0) = high"
      using sev l by (metis length_map nth_map nth_Cons_0 zero_less_numeral)
    moreover have "?rs ! 0 \<in> set ?rs"
      using l by simp
    ultimately show ?thesis by blast
  qed
  have ov: "overallStatus (assessCompliance fixedClock spendingGrant [docRequirement, financialRequirement])
       = overall_non_compliant"
    using inst ex by simp
  from len nth st sev ov show ?thesis by (intro conjI)
qed

text \<open>
  C7: without requirements the summary lists no result, its compliance rate is 1 and its
  overall status is \<open>compliant\<close>. In general the summary lists one result for each
  requirement, the result of evaluating it, in the order of the requirements;
  \<open>compliantRequirements\<close> is the number of the results that are \<open>compliant\<close> and
  \<open>totalRequirements\<close> the number of requirements; and with at least one requirement the
  rate is the quotient of the two, a division of doubles.
\<close>

theorem C7_compliance_rate:
  "requirements (assessCompliance clk g []) = []
   \<and> complianceRate (assessCompliance clk g []) = Fin 1
   \<and> overallStatus (assessCompliance clk g []) = overall_compliant
   \<and> length (requirements (assessCompliance clk g reqs)) = length reqs
   \<and> (\<forall>i < length reqs. \<exists>t.
         requirements (assessCompliance clk g reqs) ! i
           = fst (evaluateRequirement clk t (reqs ! i) g))
   \<and> totalRequirements (assessCompliance clk g reqs) = length reqs
   \<and> compliantRequirements (assessCompliance clk g reqs)
       = length (filter (\<lambda>x. cs_status x = compliant)
                   (requirements (assessCompliance clk g reqs)))
   \<and> (0 < totalRequirements (assessCompliance clk g reqs) \<longrightarrow>
        complianceRate (assessCompliance clk g reqs)
          = fdiv (ofNat (compliantRequirements (assessCompliance clk g reqs)))
                 (ofNat (totalRequirements (assessCompliance clk g reqs))))"
proof -
  have nth: "\<forall>i < length reqs. \<exists>t.
      evalList clk g reqs 1 ! i = fst (evaluateRequirement clk t (reqs ! i) g)"
    using evalList_nth by blast
  have empty: "requirements (assessCompliance clk g []) = []"
    "complianceRate (assessCompliance clk g []) = Fin 1"
    "overallStatus (assessCompliance clk g []) = overall_compliant"
    by (simp_all add: assessCompliance_fields assessCompliance_overall assessCompliance_rate
        countStatus_def)
  show ?thesis
    unfolding empty assessCompliance_fields assessCompliance_rate
    using nth by (simp add: length_evalList countStatus_def)
qed

text \<open>
  C7 (witness): of the budget requirement without parameters and with them, the first is
  compliant on the sample grant and the second is not: the rate is 1 / 2.
\<close>

theorem C7_compliance_rate_witness:
  "(0::nat) < length [noDocsRequirement, docRequirement]
   \<and> (\<exists>t. requirements (assessCompliance fixedClock sampleGrant [noDocsRequirement, docRequirement]) ! 0
            = fst (evaluateRequirement fixedClock t ([noDocsRequirement, docRequirement] ! 0)
                     sampleGrant))
   \<and> map cs_status
         (requirements (assessCompliance fixedClock sampleGrant [noDocsRequirement, docRequirement]))
       = [compliant, non_compliant]
   \<and> totalRequirements (assessCompliance fixedClock sampleGrant [noDocsRequirement, docRequirement])
       = 2
   \<and> compliantRequirements
         (assessCompliance fixedClock sampleGrant [noDocsRequirement, docRequirement]) = 1
   \<and> 0 < totalRequirements
             (assessCompliance fixedClock sampleGrant [noDocsRequirement, docRequirement])
   \<and> complianceRate (assessCompliance fixedClock sampleGrant [noDocsRequirement, docRequirement])
       = Fin (1 / 2)"
proof -
  let ?s = "assessCompliance fixedClock sampleGrant [noDocsRequirement, docRequirement]"
  note inst = C7_compliance_rate [of fixedClock sampleGrant "[noDocsRequirement, docRequirement]"]
  have len: "(0::nat) < length [noDocsRequirement, docRequirement]"
    by simp
  have nth: "\<exists>t. requirements ?s ! 0
            = fst (evaluateRequirement fixedClock t ([noDocsRequirement, docRequirement] ! 0)
                     sampleGrant)"
    using inst len by blast
  have st: "map cs_status (requirements ?s) = [compliant, non_compliant]"
    by (simp add: assessCompliance_fields(1) evaluateRequirement_def Let_def notYetApplicable_def
        noDocsRequirement_def docRequirement_def checkDocumentation_def listOr_def param_def
        noParameters_def sampleGrant_def)
  have total: "totalRequirements ?s = 2"
    using inst by simp
  have "compliantRequirements ?s
      = length (filter (\<lambda>x. x = compliant) (map cs_status (requirements ?s)))"
    using inst by (simp add: filter_map comp_def)
  then have count: "compliantRequirements ?s = 1"
    unfolding st by simp
  have pos: "0 < totalRequirements ?s"
    using total by simp
  have "complianceRate ?s = fdiv (ofNat (compliantRequirements ?s)) (ofNat (totalRequirements ?s))"
    using inst pos by blast
  then have rate: "complianceRate ?s = Fin (1 / 2)"
    unfolding count total by (simp add: ofNat_def roundEval)
  from len nth st total count pos rate show ?thesis
    by (intro conjI)
qed

text \<open>
  C8: a requirement whose \<open>applicableFrom\<close> is set and lies strictly after the clock
  reading of its evaluation gets the status \<open>not-applicable\<close> and an empty evidence list,
  whatever its type, its parameters and the grant are; so does, in the summary of
  \<open>assessCompliance\<close>, the result of every requirement whose \<open>applicableFrom\<close> lies after
  all readings of the clock.
\<close>

theorem C8_not_applicable:
  "(applicableFrom r = Some a \<and> clk t < a \<longrightarrow>
      cs_status (fst (evaluateRequirement clk t r g)) = not_applicable
      \<and> evidence (fst (evaluateRequirement clk t r g)) = [])
   \<and> (i < length reqs \<and> applicableFrom (reqs ! i) = Some a \<and> (\<forall>k. clk k < a) \<longrightarrow>
      cs_status (requirements (assessCompliance clk g reqs) ! i) = not_applicable
      \<and> evidence (requirements (assessCompliance clk g reqs) ! i) = [])"
proof (rule conjI; rule impI)
  assume "applicableFrom r = Some a \<and> clk t < a"
  then have "notYetApplicable r (clk t)"
    by (simp add: notYetApplicable_def)
  then show "cs_status (fst (evaluateRequirement clk t r g)) = not_applicable
      \<and> evidence (fst (evaluateRequirement clk t r g)) = []"
    by (rule evaluateRequirement_future)
next
  assume h: "i < length reqs \<and> applicableFrom (reqs ! i) = Some a \<and> (\<forall>k. clk k < a)"
  then obtain t' where t': "evalList clk g reqs 1 ! i = fst (evaluateRequirement clk t' (reqs ! i) g)"
    using evalList_nth by blast
  from h have "notYetApplicable (reqs ! i) (clk t')"
    by (simp add: notYetApplicable_def)
  then show "cs_status (requirements (assessCompliance clk g reqs) ! i) = not_applicable
      \<and> evidence (requirements (assessCompliance clk g reqs) ! i) = []"
    using evaluateRequirement_future [of "reqs ! i" clk t' g] t'
    by (simp add: assessCompliance_fields(1))
qed

text \<open>C8 (witness): a requirement applicable from time 2000, evaluated at time 1000.\<close>

theorem C8_not_applicable_witness:
  "applicableFrom futureRequirement = Some 2000 \<and> fixedClock 0 < 2000
   \<and> cs_status (fst (evaluateRequirement fixedClock 0 futureRequirement spendingGrant)) = not_applicable
   \<and> evidence (fst (evaluateRequirement fixedClock 0 futureRequirement spendingGrant)) = []
   \<and> cs_status (requirements (assessCompliance fixedClock spendingGrant [docRequirement, futureRequirement]) ! 1)
       = not_applicable
   \<and> evidence (requirements (assessCompliance fixedClock spendingGrant [docRequirement, futureRequirement]) ! 1) = []"
proof -
  have a: "applicableFrom futureRequirement = Some 2000 \<and> fixedClock 0 < 2000"
    by (simp add: futureRequirement_def fixedClock_def)
  have b: "(1::nat) < length [docRequirement, futureRequirement]
           \<and> applicableFrom ([docRequirement, futureRequirement] ! 1) = Some 2000
           \<and> (\<forall>k. fixedClock k < 2000)"
    by (simp add: futureRequirement_def fixedClock_def)
  note inst1 = C8_not_applicable [of futureRequirement 2000 fixedClock 0 spendingGrant,
      THEN conjunct1, rule_format, OF a]
  note inst2 = C8_not_applicable [of _ _ fixedClock _ _ 1 "[docRequirement, futureRequirement]",
      THEN conjunct2, rule_format, OF b]
  from a inst1 inst2 [of spendingGrant] show ?thesis by simp
qed

subsection \<open>Documentation requirements\<close>

lemma documentationLoop_compliant:
  "fst (documentationLoop ds subs ev) = compliant \<longleftrightarrow>
     (\<forall>doc \<in> set ds. \<exists>d \<in> set subs. doc_type d = doc \<and> doc_status d = doc_approved)"
proof (induction ds arbitrary: ev)
  case Nil
  show ?case by simp
next
  case (Cons doc ds)
  show ?case
  proof (cases "find (\<lambda>d. doc_type d = doc \<and> doc_status d = doc_approved) subs")
    case None
    then have "\<not> (\<exists>d \<in> set subs. doc_type d = doc \<and> doc_status d = doc_approved)"
      by (auto simp: find_None_iff)
    then show ?thesis by (simp add: None)
  next
    case (Some found)
    then have "\<exists>d \<in> set subs. doc_type d = doc \<and> doc_status d = doc_approved"
      by (auto simp: find_Some_iff)
    with Some show ?thesis by (simp add: Cons)
  qed
qed

lemma documentationLoop_range:
  "fst (documentationLoop ds subs ev) = compliant \<or> fst (documentationLoop ds subs ev) = non_compliant"
  by (induction ds arbitrary: ev) (auto split: option.split)

lemma checkDocumentation_monotone:
  assumes "set (documents g) \<subseteq> set (documents g')"
    and "param requiredDocuments r = param requiredDocuments r'"
    and "fst (checkDocumentation r g ev) = compliant"
  shows "fst (checkDocumentation r' g' ev') = compliant"
  using assms by (simp add: checkDocumentation_def Let_def documentationLoop_compliant) blast

text \<open>
  C9: for a documentation requirement, appending an approved document of a required type to
  the grant's documents leaves the evaluated status unchanged or turns \<open>non-compliant\<close>
  into \<open>compliant\<close>; and an applicable documentation requirement whose list of required
  documents is absent or empty is \<open>compliant\<close>.
\<close>

theorem C9_documentation_monotone:
  "(req_type r = documentation \<and> doc_status d = doc_approved
      \<and> doc_type d \<in> set (listOr (param requiredDocuments r)) \<longrightarrow>
      (cs_status (fst (evaluateRequirement clk t r (g\<lparr>documents := documents g @ [d]\<rparr>)))
         = cs_status (fst (evaluateRequirement clk t r g))
       \<or> cs_status (fst (evaluateRequirement clk t r g)) = non_compliant
         \<and> cs_status (fst (evaluateRequirement clk t r (g\<lparr>documents := documents g @ [d]\<rparr>)))
             = compliant))
   \<and> (req_type r = documentation \<and> \<not> notYetApplicable r (clk t)
      \<and> (param requiredDocuments r = None \<or> param requiredDocuments r = Some []) \<longrightarrow>
      cs_status (fst (evaluateRequirement clk t r g)) = compliant)"
proof (rule conjI; rule impI)
  assume h: "req_type r = documentation \<and> doc_status d = doc_approved
      \<and> doc_type d \<in> set (listOr (param requiredDocuments r))"
  let ?g' = "g\<lparr>documents := documents g @ [d]\<rparr>"
  show "cs_status (fst (evaluateRequirement clk t r ?g')) = cs_status (fst (evaluateRequirement clk t r g))
       \<or> cs_status (fst (evaluateRequirement clk t r g)) = non_compliant
         \<and> cs_status (fst (evaluateRequirement clk t r ?g')) = compliant"
  proof (cases "notYetApplicable r (clk t)")
    case True
    then show ?thesis by (simp add: evaluateRequirement_future)
  next
    case False
    have sub: "set (documents g) \<subseteq> set (documents ?g')" by auto
    have mono: "fst (checkDocumentation r g []) = compliant \<Longrightarrow> fst (checkDocumentation r ?g' []) = compliant"
      using checkDocumentation_monotone [OF sub refl] by blast
    have range: "fst (checkDocumentation r g []) = compliant \<or> fst (checkDocumentation r g []) = non_compliant"
      "fst (checkDocumentation r ?g' []) = compliant \<or> fst (checkDocumentation r ?g' []) = non_compliant"
      by (simp_all add: checkDocumentation_def Let_def documentationLoop_range)
    from h False mono range show ?thesis
      by (auto simp: evaluateRequirement_documentation)
  qed
next
  assume h: "req_type r = documentation \<and> \<not> notYetApplicable r (clk t)
      \<and> (param requiredDocuments r = None \<or> param requiredDocuments r = Some [])"
  then have "listOr (param requiredDocuments r) = []"
    by (auto simp: listOr_def)
  then have "fst (checkDocumentation r g []) = compliant"
    by (simp add: checkDocumentation_def Let_def)
  with h show "cs_status (fst (evaluateRequirement clk t r g)) = compliant"
    by (simp add: evaluateRequirement_documentation)
qed

text \<open>
  C9 (witness): the budget requirement is non-compliant on the sample grant and compliant
  once the approved budget document is added; without a parameter bag it is compliant.
\<close>

theorem C9_documentation_monotone_witness:
  "req_type docRequirement = documentation \<and> doc_status approvedBudget = doc_approved
   \<and> doc_type approvedBudget \<in> set (listOr (param requiredDocuments docRequirement))
   \<and> cs_status (fst (evaluateRequirement fixedClock 0 docRequirement sampleGrant)) = non_compliant
   \<and> cs_status (fst (evaluateRequirement fixedClock 0 docRequirement
                      (sampleGrant\<lparr>documents := documents sampleGrant @ [approvedBudget]\<rparr>)))
       = compliant
   \<and> req_type noDocsRequirement = documentation
   \<and> \<not> notYetApplicable noDocsRequirement (fixedClock 0)
   \<and> param requiredDocuments noDocsRequirement = None
   \<and> cs_status (fst (evaluateRequirement fixedClock 0 noDocsRequirement sampleGrant)) = compliant"
proof -
  have a: "req_type docRequirement = documentation \<and> doc_status approvedBudget = doc_approved
      \<and> doc_type approvedBudget \<in> set (listOr (param requiredDocuments docRequirement))"
    by (simp add: docRequirement_def approvedBudget_def listOr_def param_def noParameters_def)
  have before:
    "cs_status (fst (evaluateRequirement fixedClock 0 docRequirement sampleGrant)) = non_compliant"
    by (simp add: evaluateRequirement_def Let_def notYetApplicable_def docRequirement_def
        checkDocumentation_def listOr_def param_def noParameters_def sampleGrant_def)
  have b: "req_type noDocsRequirement = documentation
      \<and> \<not> notYetApplicable noDocsRequirement (fixedClock 0)
      \<and> (param requiredDocuments noDocsRequirement = None
          \<or> param requiredDocuments noDocsRequirement = Some [])"
    by (simp add: noDocsRequirement_def docRequirement_def notYetApplicable_def param_def)
  note inst1 = C9_documentation_monotone [of docRequirement approvedBudget fixedClock 0 sampleGrant,
      THEN conjunct1, rule_format, OF a]
  note inst2 = C9_documentation_monotone [of noDocsRequirement _ fixedClock 0 sampleGrant,
      THEN conjunct2, rule_format, OF b]
  from inst1 before have after:
    "cs_status (fst (evaluateRequirement fixedClock 0 docRequirement
                      (sampleGrant\<lparr>documents := documents sampleGrant @ [approvedBudget]\<rparr>)))
       = compliant"
    by (simp add: evaluateRequirement_def Let_def notYetApplicable_def docRequirement_def
        checkDocumentation_def listOr_def param_def noParameters_def sampleGrant_def
        approvedBudget_def)
  from a before after b inst2 show ?thesis
    by (simp add: noDocsRequirement_def docRequirement_def param_def)
qed

subsection \<open>Financial requirements\<close>

lemma numOr_effectiveMax: "numOr (param maxUtilizationRate r) (Fin 1) = effectiveMax r"
proof (cases "param maxUtilizationRate r")
  case None
  then show ?thesis by (simp add: numOr_def effectiveMax_def)
next
  case (Some x)
  then show ?thesis by (cases x) (simp_all add: numOr_def effectiveMax_def)
qed

lemma checkFinancial_status:
  "fst (checkFinancial r g ev) =
     (if jsgt (fdiv (sumAmounts (expenditures g)) (totalFunding g)) (effectiveMax r)
      then non_compliant else compliant)"
  by (simp add: checkFinancial_def Let_def numOr_effectiveMax)

lemma sumAmounts_all: "sumAmounts es = foldl fadd (Fin 0) (map exp_amount es)"
  by (simp add: sumAmounts_def foldl_map)

lemma effectiveMax_not_NaN: "effectiveMax r \<noteq> NaN"
  by (auto simp: effectiveMax_def split: option.split)

text \<open>
  C5 (the claim fails): with \<open>maxUtilizationRate = 0\<close> the utilization 0.95 of the
  spending grant strictly exceeds the parameter, and the requirement is still evaluated
  \<open>compliant\<close>: the zero is falsy and the default 1.0 takes its place.
\<close>

theorem C5_zero_maximum_ignored:
  "req_type zeroMaxRequirement = financial
   \<and> \<not> notYetApplicable zeroMaxRequirement (fixedClock 0)
   \<and> param maxUtilizationRate zeroMaxRequirement = Some (Fin 0)
   \<and> jsgt (fdiv (sumAmounts (expenditures spendingGrant)) (totalFunding spendingGrant)) (Fin 0)
   \<and> cs_status (fst (evaluateRequirement fixedClock 0 zeroMaxRequirement spendingGrant)) = compliant"
  by (simp add: evaluateRequirement_def Let_def notYetApplicable_def zeroMaxRequirement_def
      financialRequirement_def checkFinancial_def numOr_def param_def noParameters_def
      spendingGrant_def sampleGrant_def sumAmounts_def jsgt_def roundEval)

text \<open>
  C5 (amended): an applicable financial requirement is \<open>non-compliant\<close> exactly when the
  sum of all expenditure amounts (the approval status is not consulted) divided by
  \<open>totalFunding\<close> strictly exceeds the maximum in force, and \<open>compliant\<close> otherwise. The
  maximum in force is \<open>parameters.maxUtilizationRate\<close> when that is present and neither
  zero nor NaN, and 1.0 when it is absent, zero or NaN.
\<close>

theorem C5_financial_check:
  "(req_type r = financial \<and> \<not> notYetApplicable r (clk t) \<longrightarrow>
      cs_status (fst (evaluateRequirement clk t r g)) =
        (if jsgt (fdiv (sumAmounts (expenditures g)) (totalFunding g)) (effectiveMax r)
         then non_compliant else compliant))
   \<and> sumAmounts (expenditures g) = foldl fadd (Fin 0) (map exp_amount (expenditures g))
   \<and> (param maxUtilizationRate r = None \<longrightarrow> effectiveMax r = Fin 1)
   \<and> (param maxUtilizationRate r = Some x \<and> \<not> isZero x \<and> \<not> isNaN x \<longrightarrow> effectiveMax r = x)
   \<and> (param maxUtilizationRate r = Some x \<and> (isZero x \<or> isNaN x) \<longrightarrow> effectiveMax r = Fin 1)"
  by (simp add: evaluateRequirement_financial checkFinancial_status sumAmounts_all effectiveMax_def)

text \<open>
  C5 (witness): the maximum 0.9, a funding of 100000 and expenditures of 95000 of which
  35000 are not approved: the utilization is 0.95 and the requirement is non-compliant.
\<close>

theorem C5_financial_check_witness:
  "req_type financialRequirement = financial
   \<and> \<not> notYetApplicable financialRequirement (fixedClock 0)
   \<and> param maxUtilizationRate financialRequirement = Some (double (9 / 10))
   \<and> \<not> isZero (double (9 / 10)) \<and> \<not> isNaN (double (9 / 10))
   \<and> effectiveMax financialRequirement = double (9 / 10)
   \<and> sumAmounts (expenditures spendingGrant) = Fin 95000
   \<and> fdiv (sumAmounts (expenditures spendingGrant)) (totalFunding spendingGrant)
       = double (95 / 100)
   \<and> cs_status (fst (evaluateRequirement fixedClock 0 financialRequirement spendingGrant))
       = non_compliant
   \<and> evidence (fst (evaluateRequirement fixedClock 0 financialRequirement spendingGrant))
       = [UtilExceeds (double (95 / 100)) (double (9 / 10))]"
proof -
  have a: "req_type financialRequirement = financial
      \<and> \<not> notYetApplicable financialRequirement (fixedClock 0)"
    by (simp add: financialRequirement_def notYetApplicable_def)
  have cap: "double (9 / 10) = Fin (8106479329266893 / 2 ^ 53)"
    by (simp add: roundEval)
  have d95: "double (95 / 100) = Fin (4278419646001971 / 2 ^ 52)"
    by (simp add: roundEval)
  have p: "param maxUtilizationRate financialRequirement = Some (double (9 / 10))"
    by (simp add: financialRequirement_def param_def noParameters_def)
  have z: "\<not> isZero (double (9 / 10))" "\<not> isNaN (double (9 / 10))"
    unfolding cap by simp_all
  have b: "param maxUtilizationRate financialRequirement = Some (double (9 / 10))
      \<and> \<not> isZero (double (9 / 10)) \<and> \<not> isNaN (double (9 / 10))"
    using p z by simp
  have sum: "sumAmounts (expenditures spendingGrant) = Fin 95000"
    by (simp add: spendingGrant_def sampleGrant_def sumAmounts_def roundEval)
  have u: "fdiv (sumAmounts (expenditures spendingGrant)) (totalFunding spendingGrant)
      = double (95 / 100)"
    unfolding sum d95 by (simp add: spendingGrant_def sampleGrant_def roundEval)
  have e: "evidence (fst (evaluateRequirement fixedClock 0 financialRequirement spendingGrant))
       = [UtilExceeds (double (95 / 100)) (double (9 / 10))]"
    unfolding d95 cap
    by (simp add: evaluateRequirement_def Let_def notYetApplicable_def
        financialRequirement_def checkFinancial_def numOr_def param_def noParameters_def
        spendingGrant_def sampleGrant_def sumAmounts_def jsgt_def roundEval)
  note inst = C5_financial_check [of financialRequirement fixedClock 0 spendingGrant
      "double (9 / 10)"]
  note m = inst [THEN conjunct2, THEN conjunct2, THEN conjunct2, THEN conjunct1, rule_format, OF b]
  note st = inst [THEN conjunct1, rule_format, OF a]
  have nc: "cs_status (fst (evaluateRequirement fixedClock 0 financialRequirement spendingGrant))
       = non_compliant"
    unfolding st m u unfolding cap d95 by (simp add: jsgt_def)
  from a p z m sum u nc e show ?thesis
    by (intro conjI) simp_all
qed

text \<open>
  In the comparison the rounding decides. Three expenditures of 400.1 on a funding of
  1200.3 add up, in doubles, to 1200.3000000000002: the utilization is above 1 and the
  requirement without parameters is non-compliant, although the exact sum is the funding.
  When the maximum is 0.95 and 95000 of 100000 are spent, the quotient is the double 0.95
  itself, which does not exceed the maximum: the requirement is compliant.
\<close>

lemma financial_rounded_sum_exceeds:
  "fdiv (sumAmounts (expenditures roundingGrant)) (totalFunding roundingGrant)
     = Fin (4503599627370497 / 2 ^ 52)
   \<and> cs_status (fst (evaluateRequirement fixedClock 0 defaultCapRequirement roundingGrant))
       = non_compliant"
  by (simp add: evaluateRequirement_def Let_def notYetApplicable_def defaultCapRequirement_def
      financialRequirement_def checkFinancial_def numOr_def param_def
      roundingGrant_def sampleGrant_def sumAmounts_def jsgt_def roundEval)

lemma financial_at_the_maximum:
  "cs_status (fst (evaluateRequirement fixedClock 0 atCapRequirement spendingGrant)) = compliant"
  by (simp add: evaluateRequirement_def Let_def notYetApplicable_def atCapRequirement_def
      financialRequirement_def checkFinancial_def numOr_def param_def noParameters_def
      spendingGrant_def sampleGrant_def sumAmounts_def jsgt_def roundEval)

text \<open>
  C10 (the claim fails): with \<open>totalFunding = 0\<close>, expenditures that sum to 50 and
  \<open>maxUtilizationRate = Infinity\<close> the quotient is \<open>Infinity\<close>, which does not exceed the
  maximum: the requirement is evaluated \<open>compliant\<close>.
\<close>

theorem C10_infinite_maximum_compliant:
  "req_type unlimitedRequirement = financial
   \<and> \<not> notYetApplicable unlimitedRequirement (fixedClock 0)
   \<and> totalFunding unfundedGrant = Fin 0
   \<and> sumAmounts (expenditures unfundedGrant) = Fin 50
   \<and> cs_status (fst (evaluateRequirement fixedClock 0 unlimitedRequirement unfundedGrant)) = compliant"
  by (simp add: evaluateRequirement_def Let_def notYetApplicable_def unlimitedRequirement_def
      financialRequirement_def checkFinancial_def numOr_def param_def noParameters_def
      unfundedGrant_def sampleGrant_def sampleExpenditure_def sumAmounts_def jsgt_def roundEval)

text \<open>
  C10 (amended): the evaluation of an applicable financial requirement always returns
  \<open>compliant\<close> or \<open>non-compliant\<close>. With \<open>totalFunding = +0\<close> and expenditure amounts
  that sum to a positive value it returns \<open>non-compliant\<close> unless
  \<open>maxUtilizationRate\<close> is \<open>Infinity\<close>; with a zero \<open>totalFunding\<close> and a zero sum it
  returns \<open>compliant\<close>.
\<close>

theorem C10_zero_funding:
  "(req_type r = financial \<and> \<not> notYetApplicable r (clk t) \<and> totalFunding g = Fin 0
      \<and> jslt (Fin 0) (sumAmounts (expenditures g)) \<and> param maxUtilizationRate r \<noteq> Some PInf \<longrightarrow>
      cs_status (fst (evaluateRequirement clk t r g)) = non_compliant)
   \<and> (req_type r = financial \<and> \<not> notYetApplicable r (clk t) \<and> isZero (totalFunding g)
      \<and> isZero (sumAmounts (expenditures g)) \<longrightarrow>
      cs_status (fst (evaluateRequirement clk t r g)) = compliant)
   \<and> (req_type r = financial \<and> \<not> notYetApplicable r (clk t) \<longrightarrow>
      cs_status (fst (evaluateRequirement clk t r g)) = compliant
      \<or> cs_status (fst (evaluateRequirement clk t r g)) = non_compliant)"
proof (intro conjI; rule impI)
  assume h: "req_type r = financial \<and> \<not> notYetApplicable r (clk t) \<and> totalFunding g = Fin 0
      \<and> jslt (Fin 0) (sumAmounts (expenditures g)) \<and> param maxUtilizationRate r \<noteq> Some PInf"
  then have "jsdiv (sumAmounts (expenditures g)) (totalFunding g) = PInf"
    by (cases "sumAmounts (expenditures g)") (auto simp: jsdiv_def signedInf_def)
  then have q: "fdiv (sumAmounts (expenditures g)) (totalFunding g) = PInf"
    by (simp add: fdiv_def)
  from h have "effectiveMax r \<noteq> PInf"
    by (auto simp: effectiveMax_def split: option.split)
  with effectiveMax_not_NaN [of r] have "jslt (effectiveMax r) PInf"
    by (cases "effectiveMax r") auto
  with h q show "cs_status (fst (evaluateRequirement clk t r g)) = non_compliant"
    by (simp add: evaluateRequirement_financial checkFinancial_status jsgt_def)
next
  assume h: "req_type r = financial \<and> \<not> notYetApplicable r (clk t) \<and> isZero (totalFunding g)
      \<and> isZero (sumAmounts (expenditures g))"
  then have "jsdiv (sumAmounts (expenditures g)) (totalFunding g) = NaN"
    by (cases "sumAmounts (expenditures g)"; cases "totalFunding g") (auto simp: jsdiv_def)
  then have q: "fdiv (sumAmounts (expenditures g)) (totalFunding g) = NaN"
    by (simp add: fdiv_def)
  have "\<not> jslt (effectiveMax r) NaN"
    by (cases "effectiveMax r") auto
  with h q show "cs_status (fst (evaluateRequirement clk t r g)) = compliant"
    by (simp add: evaluateRequirement_financial checkFinancial_status jsgt_def)
next
  assume "req_type r = financial \<and> \<not> notYetApplicable r (clk t)"
  then show "cs_status (fst (evaluateRequirement clk t r g)) = compliant
      \<or> cs_status (fst (evaluateRequirement clk t r g)) = non_compliant"
    by (simp add: evaluateRequirement_financial checkFinancial_status)
qed

text \<open>
  C10 (witness): the maximum 0.9 on the grant without funding, with one expenditure of 50
  and with none.
\<close>

theorem C10_zero_funding_witness:
  "req_type financialRequirement = financial
   \<and> \<not> notYetApplicable financialRequirement (fixedClock 0)
   \<and> totalFunding unfundedGrant = Fin 0
   \<and> jslt (Fin 0) (sumAmounts (expenditures unfundedGrant))
   \<and> param maxUtilizationRate financialRequirement \<noteq> Some PInf
   \<and> cs_status (fst (evaluateRequirement fixedClock 0 financialRequirement unfundedGrant))
       = non_compliant
   \<and> isZero (totalFunding emptyUnfundedGrant)
   \<and> isZero (sumAmounts (expenditures emptyUnfundedGrant))
   \<and> cs_status (fst (evaluateRequirement fixedClock 0 financialRequirement emptyUnfundedGrant))
       = compliant"
proof -
  have a: "req_type financialRequirement = financial
      \<and> \<not> notYetApplicable financialRequirement (fixedClock 0)
      \<and> totalFunding unfundedGrant = Fin 0
      \<and> jslt (Fin 0) (sumAmounts (expenditures unfundedGrant))
      \<and> param maxUtilizationRate financialRequirement \<noteq> Some PInf"
    by (simp add: financialRequirement_def notYetApplicable_def unfundedGrant_def sampleGrant_def
        sampleExpenditure_def sumAmounts_def param_def noParameters_def roundEval)
  have b: "req_type financialRequirement = financial
      \<and> \<not> notYetApplicable financialRequirement (fixedClock 0)
      \<and> isZero (totalFunding emptyUnfundedGrant)
      \<and> isZero (sumAmounts (expenditures emptyUnfundedGrant))"
    by (simp add: financialRequirement_def notYetApplicable_def emptyUnfundedGrant_def
        sampleGrant_def sumAmounts_def)
  note inst1 = C10_zero_funding [of financialRequirement fixedClock 0 unfundedGrant,
      THEN conjunct1, rule_format, OF a]
  note inst2 = C10_zero_funding [of financialRequirement fixedClock 0 emptyUnfundedGrant,
      THEN conjunct2, THEN conjunct1, rule_format, OF b]
  from a b inst1 inst2 show ?thesis by simp
qed

end
